theory Spec2Isabelle
  imports
    Complex_Main
    "HOL-Library.Sublist"
    "HOL-Library.Multiset"
    "HOL-Library.Char_ord"
    "HOL-Library.List_Lexorder"
    "HOL-Library.Product_Lexorder"
begin

chapter \<open>The specials-agent scripts: model\<close>

text \<open>
  A Python \<open>str\<close> is modelled as the list of its characters. Functions of the Python
  library whose result depends on the character repertoire (\<open>str.lower\<close>, \<open>str.strip\<close>,
  the \<open>re\<close> module, number formatting and parsing) are parameters of the operations
  that call them: every theorem below holds for whatever these library functions compute.
\<close>

section \<open>Floats\<close>

text \<open>
  A Python \<open>float\<close> is a double: a number, kept by its exact value, or NaN. (The
  infinities are left out; they compare like numbers beyond every other.) Comparison of
  doubles is exact: it is the comparison of the values, and false whenever NaN takes
  part. Arithmetic rounds its exact result to a double; the rounding is the parameter
  \<open>round_double\<close> of the library record below, so what is proved holds for the rounding
  of the machine.
\<close>

datatype pyfloat = Num real | NaN

text \<open>\<open>x <= y\<close> and \<open>x < y\<close>.\<close>

fun float_le :: "pyfloat \<Rightarrow> pyfloat \<Rightarrow> bool" where
  "float_le (Num a) (Num b) = (a \<le> b)"
| "float_le x y = False"

fun float_lt :: "pyfloat \<Rightarrow> pyfloat \<Rightarrow> bool" where
  "float_lt (Num a) (Num b) = (a < b)"
| "float_lt x y = False"

section \<open>Strings\<close>

text \<open>Python's \<open>needle in haystack\<close> on strings: \<open>needle\<close> occurs as a contiguous slice.\<close>

fun str_in :: "'c list \<Rightarrow> 'c list \<Rightarrow> bool" where
  "str_in needle [] = (needle = [])"
| "str_in needle (c # cs) = (prefix needle (c # cs) \<or> str_in needle cs)"

text \<open>\<open>str(n)\<close> for an int that is not negative: its decimal digits.\<close>

definition digit_char :: "nat \<Rightarrow> char" where
  "digit_char d = ''0123456789'' ! d"

function str_nat :: "nat \<Rightarrow> string" where
  "str_nat n = (if n < 10 then [digit_char n] else str_nat (n div 10) @ [digit_char (n mod 10)])"
  by pat_completeness auto
termination
  by (relation "measure id") auto

declare str_nat.simps [simp del]

text \<open>\<open>"\n".join(lines)\<close>.\<close>

fun join_lines :: "string list \<Rightarrow> string" where
  "join_lines [] = []"
| "join_lines [l] = l"
| "join_lines (l # ls) = l @ [CHR 0x0A] @ join_lines ls"

section \<open>\<open>main.py\<close> and \<open>email_parser.py\<close>: \<open>find_matches\<close>\<close>

text \<open>
  The two modules carry the same function (\<open>email_parser.find_matches\<close> names its
  variables \<open>products\<close>, \<open>product\<close>, \<open>lower_product\<close>):
  \<^verbatim>\<open>
  matches = []
  for item in items:
      lower_item = item.lower()
      for term in watchlist:
          if term.lower() in lower_item:
              matches.append(item)
              break
  return matches
  \<close>
  \<open>scan_watchlist\<close> is the inner loop, leaving at the \<open>break\<close>; \<open>find_matches_loop\<close>
  is the outer loop with the list \<open>matches\<close> built so far.
\<close>

fun scan_watchlist ::
  "('c list \<Rightarrow> 'c list) \<Rightarrow> 'c list \<Rightarrow> 'c list \<Rightarrow> 'c list list \<Rightarrow> 'c list list \<Rightarrow> 'c list list"
where
  "scan_watchlist lower item lower_item [] matches = matches"
| "scan_watchlist lower item lower_item (term # rest) matches =
     (if str_in (lower term) lower_item then matches @ [item]
      else scan_watchlist lower item lower_item rest matches)"

fun find_matches_loop ::
  "('c list \<Rightarrow> 'c list) \<Rightarrow> 'c list list \<Rightarrow> 'c list list \<Rightarrow> 'c list list \<Rightarrow> 'c list list"
where
  "find_matches_loop lower [] watchlist matches = matches"
| "find_matches_loop lower (item # items) watchlist matches =
     find_matches_loop lower items watchlist
       (scan_watchlist lower item (lower item) watchlist matches)"

definition find_matches ::
  "('c list \<Rightarrow> 'c list) \<Rightarrow> 'c list list \<Rightarrow> 'c list list \<Rightarrow> 'c list list"
where
  "find_matches lower items watchlist = find_matches_loop lower items watchlist []"

text \<open>An instance of \<open>lower\<close> on the ASCII letters, for evaluating examples.\<close>

definition ascii_lower :: "string \<Rightarrow> string" where
  "ascii_lower s =
     map (\<lambda>c. if CHR ''A'' \<le> c \<and> c \<le> CHR ''Z'' then char_of (of_char c + (32::nat)) else c) s"

section \<open>Decoded JSON values\<close>

text \<open>
  What \<open>resp.json()\<close> hands to the checker: \<open>None\<close>, a bool, an int, a float, a string,
  a list or a dict. A dict is kept as its list of items; \<open>dict.get\<close> reads it.
\<close>

datatype json =
    JNull
  | JBool bool
  | JInt int
  | JFloat pyfloat
  | JStr string
  | JList "json list"
  | JDict "(string \<times> json) list"

type_synonym pydict = "(string \<times> json) list"

text \<open>Python's truth value test: what \<open>or\<close> and \<open>if\<close> look at.\<close>

fun truthy :: "json \<Rightarrow> bool" where
  "truthy JNull = False"
| "truthy (JBool b) = b"
| "truthy (JInt i) = (i \<noteq> 0)"
| "truthy (JFloat x) = (x \<noteq> Num 0)"
| "truthy (JStr s) = (s \<noteq> [])"
| "truthy (JList xs) = (xs \<noteq> [])"
| "truthy (JDict kvs) = (kvs \<noteq> [])"

text \<open>\<open>a or b\<close>: the left operand when it is truthy, the right one otherwise.\<close>

definition py_or :: "json \<Rightarrow> json \<Rightarrow> json" where
  "py_or a b = (if truthy a then a else b)"

text \<open>\<open>raw.get(key)\<close>: \<open>None\<close> for a missing key.\<close>

definition dict_get :: "pydict \<Rightarrow> string \<Rightarrow> json" where
  "dict_get raw key = (case map_of raw key of None \<Rightarrow> JNull | Some v \<Rightarrow> v)"

datatype error =
    NoPriceField
  | ValueError
  | TypeError
  | AttributeError
  | ImportError
  | OSError string
  | RequestError string
  | SMTPError string

text \<open>
  The library functions the checker calls on values: \<open>float(s)\<close> on a string
  (\<open>None\<close> where Python raises \<open>ValueError\<close>), \<open>str(v)\<close> on a value that is not a
  string, the format \<open>:.2f\<close>, the dash of the report's lines, and the rounding of an
  exact result to a double.
\<close>

record pylib =
  parse_float :: "string \<Rightarrow> pyfloat option"
  repr :: "json \<Rightarrow> string"
  fmt2 :: "pyfloat \<Rightarrow> string"
  dash :: string
  round_double :: "real \<Rightarrow> real"

text \<open>\<open>x / 2\<close> and \<open>x + y\<close> on floats, and the double that the literal \<open>0.01\<close> denotes.\<close>

fun float_halve :: "pylib \<Rightarrow> pyfloat \<Rightarrow> pyfloat" where
  "float_halve lib (Num a) = Num (round_double lib (a / 2))"
| "float_halve lib NaN = NaN"

fun float_add :: "pylib \<Rightarrow> pyfloat \<Rightarrow> pyfloat \<Rightarrow> pyfloat" where
  "float_add lib (Num a) (Num b) = Num (round_double lib (a + b))"
| "float_add lib x y = NaN"

definition tolerance :: pyfloat where
  "tolerance = Num (5764607523034235 / 2 ^ 59)"

text \<open>
  \<open>float(v)\<close>. An int is rounded to a double (the \<open>OverflowError\<close> of an int beyond
  the doubles is left out).
\<close>

fun py_float :: "pylib \<Rightarrow> json \<Rightarrow> error + pyfloat" where
  "py_float lib JNull = Inl TypeError"
| "py_float lib (JBool b) = Inr (Num (if b then 1 else 0))"
| "py_float lib (JInt i) = Inr (Num (round_double lib (of_int i)))"
| "py_float lib (JFloat x) = Inr x"
| "py_float lib (JStr s) = (case parse_float lib s of None \<Rightarrow> Inl ValueError | Some x \<Rightarrow> Inr x)"
| "py_float lib (JList xs) = Inl TypeError"
| "py_float lib (JDict kvs) = Inl TypeError"

text \<open>\<open>str(v)\<close>.\<close>

fun py_str :: "pylib \<Rightarrow> json \<Rightarrow> string" where
  "py_str lib (JStr s) = s"
| "py_str lib v = repr lib v"

section \<open>\<open>specials_checker.py\<close>: data\<close>

record WatchItem =
  name :: string
  match_keywords :: "string list"
  only_half_price :: bool

record Offer =
  watch_name :: string
  store :: string
  product_title :: string
  price :: pyfloat
  size :: "string option"
  url :: string
  was_price :: "pyfloat option"
  is_half_price :: bool

section \<open>\<open>specials_checker.py\<close>: normalisation\<close>

text \<open>
  A variable of the source that bears the name of a field (\<open>price\<close>, \<open>size\<close>,
  \<open>watch_name\<close>) is primed here. The parts the two normalisers share, as the source
  writes them twice:
  \<^verbatim>\<open>
  was_val = (raw.get("wasPrice") or raw.get("WasPrice")
             or raw.get("originalPrice") or raw.get("PreviousPrice"))
  was_price = float(was_val) if was_val not in (None, "") else None
  size = (raw.get("size") or raw.get("Size")
          or raw.get("packageSize") or raw.get("PackageSize"))
  url = (raw.get("url") or raw.get("Url") or raw.get("productUrl")
         or raw.get("ProductUrl") or "")
  is_half_price = False
  if was_price:
      is_half_price = price <= was_price / 2 + 0.01
  \<close>
\<close>

definition was_val_of :: "pydict \<Rightarrow> json" where
  "was_val_of raw =
     py_or (py_or (py_or (dict_get raw ''wasPrice'') (dict_get raw ''WasPrice''))
                  (dict_get raw ''originalPrice''))
           (dict_get raw ''PreviousPrice'')"

definition was_price_of :: "pylib \<Rightarrow> json \<Rightarrow> error + pyfloat option" where
  "was_price_of lib was_val =
     (if was_val \<noteq> JNull \<and> was_val \<noteq> JStr []
      then (case py_float lib was_val of Inl e \<Rightarrow> Inl e | Inr w \<Rightarrow> Inr (Some w))
      else Inr None)"

definition size_of :: "pydict \<Rightarrow> json" where
  "size_of raw =
     py_or (py_or (py_or (dict_get raw ''size'') (dict_get raw ''Size''))
                  (dict_get raw ''packageSize''))
           (dict_get raw ''PackageSize'')"

definition url_of :: "pydict \<Rightarrow> json" where
  "url_of raw =
     py_or (py_or (py_or (py_or (dict_get raw ''url'') (dict_get raw ''Url''))
                         (dict_get raw ''productUrl''))
                  (dict_get raw ''ProductUrl''))
           (JStr [])"

text \<open>
  \<open>if was_price:\<close> holds for a float that is not \<open>None\<close> and not zero (NaN is
  truthy); the comparison is that of the doubles \<open>price\<close> and \<open>was_price / 2 + 0.01\<close>.
\<close>

definition half_price_flag :: "pylib \<Rightarrow> pyfloat \<Rightarrow> pyfloat option \<Rightarrow> bool" where
  "half_price_flag lib price' was_price' =
     (case was_price' of
        None \<Rightarrow> False
      | Some w \<Rightarrow>
          if w \<noteq> Num 0 then float_le price' (float_add lib (float_halve lib w) tolerance)
          else False)"

definition coles_title_of :: "pydict \<Rightarrow> json" where
  "coles_title_of raw =
     py_or (py_or (py_or (dict_get raw ''name'') (dict_get raw ''productName''))
                  (dict_get raw ''ProductName''))
           (JStr ''Unknown Coles product'')"

definition coles_price_val_of :: "pydict \<Rightarrow> json" where
  "coles_price_val_of raw =
     py_or (py_or (dict_get raw ''currentPrice'') (dict_get raw ''price''))
           (dict_get raw ''CurrentPrice'')"

definition normalise_coles_product :: "pylib \<Rightarrow> string \<Rightarrow> pydict \<Rightarrow> error + Offer" where
  "normalise_coles_product lib watch_name' raw =
     (let title = coles_title_of raw;
          price_val = coles_price_val_of raw
      in if price_val = JNull then Inl NoPriceField
         else case py_float lib price_val of
           Inl e \<Rightarrow> Inl e
         | Inr price' \<Rightarrow>
            (case was_price_of lib (was_val_of raw) of
               Inl e \<Rightarrow> Inl e
             | Inr was_price' \<Rightarrow>
                (let size' = size_of raw;
                     url' = url_of raw
                 in Inr \<lparr>watch_name = watch_name',
                         store = ''Coles'',
                         product_title = py_str lib title,
                         price = price',
                         size = Some (if size' \<noteq> JNull then py_str lib size' else []),
                         url = py_str lib url',
                         was_price = was_price',
                         is_half_price = half_price_flag lib price' was_price'\<rparr>)))"

definition woolies_title_of :: "pydict \<Rightarrow> json" where
  "woolies_title_of raw =
     py_or (py_or (py_or (py_or (py_or (dict_get raw ''name'') (dict_get raw ''productName''))
                                (dict_get raw ''ProductName''))
                         (dict_get raw ''description''))
                  (dict_get raw ''Description''))
           (JStr ''Unknown Woolworths product'')"

definition woolies_price_val_of :: "pydict \<Rightarrow> json" where
  "woolies_price_val_of raw =
     py_or (py_or (py_or (dict_get raw ''currentPrice'') (dict_get raw ''price''))
                  (dict_get raw ''CurrentPrice''))
           (dict_get raw ''Price'')"

definition normalise_woolies_product :: "pylib \<Rightarrow> string \<Rightarrow> pydict \<Rightarrow> error + Offer" where
  "normalise_woolies_product lib watch_name' raw =
     (let title = woolies_title_of raw;
          price_val = woolies_price_val_of raw
      in if price_val = JNull then Inl NoPriceField
         else case py_float lib price_val of
           Inl e \<Rightarrow> Inl e
         | Inr price' \<Rightarrow>
            (case was_price_of lib (was_val_of raw) of
               Inl e \<Rightarrow> Inl e
             | Inr was_price' \<Rightarrow>
                (let size' = size_of raw;
                     url' = url_of raw
                 in Inr \<lparr>watch_name = watch_name',
                         store = ''Woolworths'',
                         product_title = py_str lib title,
                         price = price',
                         size = Some (if size' \<noteq> JNull then py_str lib size' else []),
                         url = py_str lib url',
                         was_price = was_price',
                         is_half_price = half_price_flag lib price' was_price'\<rparr>)))"

section \<open>\<open>specials_checker.py\<close>: searching\<close>

text \<open>
  The two RapidAPI searches are parameters: what the service answers for a keyword
  during the run, an exception (of \<open>requests\<close>, or the HTTP status) or the decoded JSON.
\<close>

record net =
  search_coles :: "string \<Rightarrow> error + json"
  search_woolies :: "string \<Rightarrow> error + json"

definition is_list :: "json \<Rightarrow> bool" where
  "is_list v = (case v of JList xs \<Rightarrow> True | _ \<Rightarrow> False)"

definition extract_products_from_response :: "json \<Rightarrow> json list" where
  "extract_products_from_response data =
     (let candidates =
            (case data of
               JDict d \<Rightarrow> [dict_get d ''results'', dict_get d ''data'', dict_get d ''products'']
             | _ \<Rightarrow> [JNull, JNull, JNull])
      in case find is_list candidates of
           Some (JList cand) \<Rightarrow> cand
         | _ \<Rightarrow> (case data of
                   JList xs \<Rightarrow> xs
                 | JDict d \<Rightarrow> [JDict d]
                 | _ \<Rightarrow> []))"

text \<open>
  A normaliser applied to an element of the response: \<open>raw.get\<close> raises
  \<open>AttributeError\<close> on a value that is not a dict.
\<close>

definition on_dict :: "(pydict \<Rightarrow> error + Offer) \<Rightarrow> json \<Rightarrow> error + Offer" where
  "on_dict normalise raw = (case raw of JDict d \<Rightarrow> normalise d | _ \<Rightarrow> Inl AttributeError)"

text \<open>What \<open>find_offers_for_watch_item\<close> prints.\<close>

datatype warning =
    ColesSearchFailed string error
  | WooliesSearchFailed string error

text \<open>
  \<^verbatim>\<open>
  for raw in extract_products_from_response(data):
      offers.append(normalise(watch_item.name, raw))
  \<close>
  The loop appends to \<open>offers\<close> until a normalisation raises; the offers appended
  before that stay in the list.
\<close>

fun append_offers ::
  "(json \<Rightarrow> error + Offer) \<Rightarrow> json list \<Rightarrow> Offer list \<Rightarrow> error option \<times> Offer list"
where
  "append_offers normalise [] offers = (None, offers)"
| "append_offers normalise (raw # rest) offers =
     (case normalise raw of
        Inl e \<Rightarrow> (Some e, offers)
      | Inr off \<Rightarrow> append_offers normalise rest (offers @ [off]))"

text \<open>
  One \<open>try\<close> block of the keyword loop, on the offers and the printed warnings so far.
  The source writes it once for Coles and once for Woolworths; the two differ in the
  search, the normaliser and the warning.
  \<^verbatim>\<open>
  try:
      data = search(kw)
      for raw in extract_products_from_response(data):
          offers.append(normalise(watch_item.name, raw))
  except Exception as e:
      print(f"[WARN] ... search failed for '{kw}': {e}")
  \<close>
\<close>

definition try_store ::
  "(string \<Rightarrow> error + json) \<Rightarrow> (json \<Rightarrow> error + Offer) \<Rightarrow> (string \<Rightarrow> error \<Rightarrow> warning) \<Rightarrow>
   string \<Rightarrow> Offer list \<times> warning list \<Rightarrow> Offer list \<times> warning list"
where
  "try_store search normalise warn kw st =
     (case search kw of
        Inl e \<Rightarrow> (fst st, snd st @ [warn kw e])
      | Inr data \<Rightarrow>
          (case append_offers normalise (extract_products_from_response data) (fst st) of
             (None, offers') \<Rightarrow> (offers', snd st)
           | (Some e, offers') \<Rightarrow> (offers', snd st @ [warn kw e])))"

fun keywords_loop ::
  "pylib \<Rightarrow> net \<Rightarrow> string \<Rightarrow> string list \<Rightarrow> Offer list \<times> warning list \<Rightarrow>
   Offer list \<times> warning list"
where
  "keywords_loop lib nt wname [] st = st"
| "keywords_loop lib nt wname (kw # kws) st =
     keywords_loop lib nt wname kws
       (try_store (search_woolies nt) (on_dict (normalise_woolies_product lib wname))
                  WooliesSearchFailed kw
          (try_store (search_coles nt) (on_dict (normalise_coles_product lib wname))
                     ColesSearchFailed kw st))"

text \<open>The result is the returned list and what was printed.\<close>

definition find_offers_for_watch_item ::
  "pylib \<Rightarrow> net \<Rightarrow> WatchItem \<Rightarrow> Offer list \<times> warning list"
where
  "find_offers_for_watch_item lib nt watch_item =
     (let st = keywords_loop lib nt (name watch_item) (match_keywords watch_item) ([], [])
      in (if only_half_price watch_item then filter is_half_price (fst st) else fst st,
          snd st))"

text \<open>
  For stating what the keyword loop accumulates: the offers one (store, keyword) pair
  contributes, namely those normalised before the pair's first exception (none when the
  search itself raises, all of them when nothing raises), and that first exception.
\<close>

definition offers_before_failure ::
  "(string \<Rightarrow> error + json) \<Rightarrow> (json \<Rightarrow> error + Offer) \<Rightarrow> string \<Rightarrow> Offer list"
where
  "offers_before_failure search normalise kw =
     (case search kw of
        Inl e \<Rightarrow> []
      | Inr data \<Rightarrow>
          map projr (takeWhile (\<lambda>r. \<not> isl r)
                       (map normalise (extract_products_from_response data))))"

definition first_failure ::
  "(string \<Rightarrow> error + json) \<Rightarrow> (json \<Rightarrow> error + Offer) \<Rightarrow> string \<Rightarrow> error option"
where
  "first_failure search normalise kw =
     (case search kw of
        Inl e \<Rightarrow> Some e
      | Inr data \<Rightarrow>
          (case find isl (map normalise (extract_products_from_response data)) of
             None \<Rightarrow> None
           | Some r \<Rightarrow> Some (projl r)))"

section \<open>\<open>specials_checker.py\<close>: \<open>build_report\<close>\<close>

text \<open>
  The line of one offer:
  \<^verbatim>\<open>
  was_str = f"(was ${o.was_price:.2f})" if o.was_price else ""
  half_str = " [HALF PRICE?]" if o.is_half_price else ""
  size_str = f" <dash> {o.size}" if o.size else ""
  url_str = f" <dash> {o.url}" if o.url else ""
  lines.append(f"- {o.store}: {o.product_title} <dash> ${o.price:.2f} "
               f"{was_str}{half_str}{size_str}{url_str}")
  \<close>
  where \<open><dash>\<close> is the en dash of the source, the parameter \<open>dash\<close>.
\<close>

definition offer_line :: "pylib \<Rightarrow> Offer \<Rightarrow> string" where
  "offer_line lib off =
     (let was_str = (case was_price off of
                       None \<Rightarrow> []
                     | Some w \<Rightarrow> if w \<noteq> Num 0 then ''(was $'' @ fmt2 lib w @ '')'' else []);
          half_str = (if is_half_price off then '' [HALF PRICE?]'' else []);
          size_str = (case size off of
                        None \<Rightarrow> []
                      | Some sz \<Rightarrow> if sz \<noteq> [] then '' '' @ dash lib @ '' '' @ sz else []);
          url_str = (if url off \<noteq> [] then '' '' @ dash lib @ '' '' @ url off else [])
      in ''- '' @ store off @ '': '' @ product_title off @ '' '' @ dash lib @ '' $''
         @ fmt2 lib (price off) @ '' '' @ was_str @ half_str @ size_str @ url_str)"

text \<open>
  \<open>sorted(offers, key=lambda o: (o.store, o.price))\<close>. The keys are compared as tuples,
  the stores first and, between offers of one store, the prices. Where the prices to be
  compared are numbers the keys are totally ordered and \<open>sorted\<close> is the stable sort by
  that order, which \<^const>\<open>sort_key\<close> is on the lexicographic order of pairs of a
  string and a number. Where a NaN price has to be compared (an offer with a NaN price
  that is not the only offer of its store) the order Python leaves depends on the steps
  of its sorting algorithm: the model gives no result there.
\<close>

definition comparable_prices :: "Offer list \<Rightarrow> bool" where
  "comparable_prices offers \<longleftrightarrow>
     list_all (\<lambda>off. price off \<noteq> NaN
                   \<or> length (filter (\<lambda>other. store other = store off) offers) \<le> 1)
       offers"

fun float_value :: "pyfloat \<Rightarrow> real" where
  "float_value (Num a) = a"
| "float_value NaN = 0"

definition py_sorted :: "Offer list \<Rightarrow> Offer list option" where
  "py_sorted offers =
     (if comparable_prices offers
      then Some (sort_key (\<lambda>off. (store off, float_value (price off))) offers)
      else None)"

text \<open>
  A dict that keeps insertion order, as its list of items: \<open>d[k] = v\<close> replaces the
  value of a key in place and appends a new key.
\<close>

fun dict_set :: "('k \<times> 'v) list \<Rightarrow> 'k \<Rightarrow> 'v \<Rightarrow> ('k \<times> 'v) list" where
  "dict_set [] k v = [(k, v)]"
| "dict_set ((k', v') # d) k v =
     (if k' = k then (k', v) # d else (k', v') # dict_set d k v)"

text \<open>
  \<^verbatim>\<open>
  for o in offers_sorted:
      if o.store not in cheapest_by_store or o.price < cheapest_by_store[o.store].price:
          cheapest_by_store[o.store] = o
  \<close>
\<close>

fun cheapest_loop :: "Offer list \<Rightarrow> (string \<times> Offer) list \<Rightarrow> (string \<times> Offer) list" where
  "cheapest_loop [] cheapest_by_store = cheapest_by_store"
| "cheapest_loop (off # rest) cheapest_by_store =
     cheapest_loop rest
       (case map_of cheapest_by_store (store off) of
          None \<Rightarrow> dict_set cheapest_by_store (store off) off
        | Some c \<Rightarrow>
            if float_lt (price off) (price c)
            then dict_set cheapest_by_store (store off) off
            else cheapest_by_store)"

text \<open>
  \<open>min(values, key=lambda o: o.price)\<close> on a list that is not empty: it keeps the first
  element and replaces it by a later one whose price is less.
\<close>

fun min_by_price :: "Offer \<Rightarrow> Offer list \<Rightarrow> Offer" where
  "min_by_price best [] = best"
| "min_by_price best (off # rest) =
     min_by_price (if float_lt (price off) (price best) then off else best) rest"

text \<open>
  \<^verbatim>\<open>
  if len(cheapest_by_store) >= 2:
      cheapest = min(cheapest_by_store.values(), key=lambda o: o.price)
      lines.append(f"**Cheapest overall:** {cheapest.store} at ${cheapest.price:.2f}")
  \<close>
  The case of no value cannot occur under the guard.
\<close>

definition cheapest_lines :: "pylib \<Rightarrow> (string \<times> Offer) list \<Rightarrow> string list" where
  "cheapest_lines lib cheapest_by_store =
     (if 2 \<le> length cheapest_by_store then
        (case map snd cheapest_by_store of
           [] \<Rightarrow> []
         | v # vs \<Rightarrow>
             (let cheapest = min_by_price v vs
              in [''**Cheapest overall:** '' @ store cheapest @ '' at $''
                  @ fmt2 lib (price cheapest)]))
      else [])"

text \<open>
  The lines the body of the loop over \<open>all_offers.items()\<close> appends for one watch item:
  \<^verbatim>\<open>
  lines.append(f"## {watch_name}")
  if not offers:
      lines.append("No matching products or specials found.\n")
      continue
  offers_sorted = sorted(offers, key=lambda o: (o.store, o.price))
  ...
  lines.append("")  # blank line
  \<close>
\<close>

definition watch_lines :: "pylib \<Rightarrow> string \<Rightarrow> Offer list \<Rightarrow> string list option" where
  "watch_lines lib watch_name' offers =
     (if offers = []
      then Some [''## '' @ watch_name',
                 ''No matching products or specials found.'' @ [CHR 0x0A]]
      else
        (case py_sorted offers of
           None \<Rightarrow> None
         | Some offers_sorted \<Rightarrow>
             (let cheapest_by_store = cheapest_loop offers_sorted []
              in Some ([''## '' @ watch_name'] @ map (offer_line lib) offers_sorted
                       @ cheapest_lines lib cheapest_by_store @ [[]]))))"

fun report_loop ::
  "pylib \<Rightarrow> (string \<times> Offer list) list \<Rightarrow> string list \<Rightarrow> string list option"
where
  "report_loop lib [] lines = Some lines"
| "report_loop lib ((watch_name', offers) # rest) lines =
     (case watch_lines lib watch_name' offers of
        None \<Rightarrow> None
      | Some block \<Rightarrow> report_loop lib rest (lines @ block))"

text \<open>\<open>build_report\<close> returns \<open>"\n".join(lines)\<close>.\<close>

definition build_report :: "pylib \<Rightarrow> (string \<times> Offer list) list \<Rightarrow> string option" where
  "build_report lib all_offers = map_option join_lines (report_loop lib all_offers [])"

text \<open>
  The invariant of \<open>cheapest_loop\<close> after the offers \<open>seen\<close>, whose prices are numbers:
  the dict has one key for each store seen, and the value of a store is an offer of that
  store that no offer seen of that store undercuts.
\<close>

definition cheapest_inv :: "(string \<times> Offer) list \<Rightarrow> Offer set \<Rightarrow> bool" where
  "cheapest_inv d seen \<longleftrightarrow>
     distinct (map fst d) \<and> fst ` set d = store ` seen \<and>
     (\<forall>s c. map_of d s = Some c \<longrightarrow>
        c \<in> seen \<and> store c = s
        \<and> (\<forall>off \<in> seen. store off = s \<longrightarrow>
              float_value (price c) \<le> float_value (price off)))"

section \<open>\<open>pdf_parser.py\<close>: \<open>CataloguePDF.parse_products\<close>\<close>


text \<open>
  A product dict: the keys \<open>'name'\<close>, \<open>'price'\<close> and \<open>'text'\<close>, and \<open>'save'\<close> and
  \<open>'discount'\<close> when the line has them.
\<close>

record product =
  prod_name :: string
  prod_price :: string
  prod_text :: string
  prod_save :: "string option"
  prod_discount :: "string option"

record CataloguePDF =
  pdf_path :: string
  text_content :: string
  products :: "product list"








text \<open>
  An instance of the library parameters for evaluating examples. It reads the
  strings of digits with an optional fraction of digits that the examples use, and the
  string \<open>nan\<close>; it formats a number that is not negative by its integer part and two
  decimals cut off, which is Python's \<open>:.2f\<close> on the numbers of the examples; and its
  arithmetic is exact, \<open>round_double\<close> changing nothing. The examples stay away from
  the cases where the rounding of doubles decides a comparison.
\<close>

fun digit_val :: "char \<Rightarrow> nat option" where
  "digit_val c =
     (if CHR ''0'' \<le> c \<and> c \<le> CHR ''9'' then Some (of_char c - 48) else None)"

fun digits_val :: "nat \<Rightarrow> string \<Rightarrow> nat option" where
  "digits_val acc [] = Some acc"
| "digits_val acc (c # cs) =
     (case digit_val c of None \<Rightarrow> None | Some d \<Rightarrow> digits_val (10 * acc + d) cs)"

definition example_parse_float :: "string \<Rightarrow> pyfloat option" where
  "example_parse_float s =
     (let ip = takeWhile (\<lambda>c. c \<noteq> CHR ''.'') s;
          fp = drop 1 (dropWhile (\<lambda>c. c \<noteq> CHR ''.'') s)
      in if s = ''nan'' then Some NaN
         else if ip = [] then None
         else case (digits_val 0 ip, digits_val 0 fp) of
                (Some i, Some f) \<Rightarrow> Some (Num (real i + real f / 10 ^ length fp))
              | _ \<Rightarrow> None)"

definition example_fmt2 :: "pyfloat \<Rightarrow> string" where
  "example_fmt2 x =
     (case x of
        NaN \<Rightarrow> ''nan''
      | Num r \<Rightarrow>
          (let cents = nat \<lfloor>r * 100\<rfloor>
           in str_nat (cents div 100) @ ''.''
              @ [digit_char (cents mod 100 div 10), digit_char (cents mod 10)]))"

definition example_lib :: pylib where
  "example_lib =
     \<lparr>parse_float = example_parse_float,
      repr = (\<lambda>v. ''<value>''),
      fmt2 = example_fmt2,
      dash = ''-'',
      round_double = (\<lambda>x. x)\<rparr>"

text \<open>
  A service for evaluating examples. Coles answers every keyword with three products,
  the second without a price; Woolworths is down for the keyword \<open>tim tam\<close> and answers
  any other keyword with one product.
\<close>

definition example_net :: net where
  "example_net =
     \<lparr>search_coles = (\<lambda>kw.
        Inr (JDict [(''results'', JList
          [JDict [(''name'', JStr ''Tim Tam Original''), (''price'', JFloat (Num 3)),
                  (''wasPrice'', JInt 6)],
           JDict [(''name'', JStr ''Tim Tam Double Coat'')],
           JDict [(''name'', JStr ''Tim Tam White''), (''price'', JFloat (Num 4))]])])),
      search_woolies = (\<lambda>kw.
        if kw = ''tim tam'' then Inl (RequestError ''503 Service Unavailable'')
        else Inr (JList
          [JDict [(''Description'', JStr ''Arnotts Tim Tam''), (''Price'', JFloat (Num 4.5)),
                  (''WasPrice'', JFloat (Num 5))]]))\<rparr>"

text \<open>
  Offers for evaluating the report: three with numbers for prices, and two of which the
  first has the price NaN, as \<open>float("nan")\<close> gives for a record with the price "nan".
\<close>

definition nan_offers :: "Offer list" where
  "nan_offers =
     [\<lparr>watch_name = ''Tim Tams'', store = ''Coles'', product_title = ''Tim Tam Original'',
        price = NaN, size = Some [], url = [], was_price = None, is_half_price = False\<rparr>,
      \<lparr>watch_name = ''Tim Tams'', store = ''Woolworths'', product_title = ''Arnotts Tim Tam'',
        price = Num 1.5, size = Some [], url = [], was_price = None, is_half_price = False\<rparr>]"

definition example_offers :: "Offer list" where
  "example_offers =
     [\<lparr>watch_name = ''Tim Tams'', store = ''Woolworths'', product_title = ''Arnotts Tim Tam'',
        price = Num 4.5, size = Some ''330g'', url = [], was_price = Some (Num 5),
        is_half_price = False\<rparr>,
      \<lparr>watch_name = ''Tim Tams'', store = ''Coles'', product_title = ''Tim Tam White'',
        price = Num 4, size = Some [], url = [], was_price = None, is_half_price = False\<rparr>,
      \<lparr>watch_name = ''Tim Tams'', store = ''Coles'', product_title = ''Tim Tam Original'',
        price = Num 3, size = Some [], url = [], was_price = Some (Num 6),
        is_half_price = True\<rparr>]"








section \<open>\<open>main.py\<close> and \<open>pdf_parser.py\<close>: log files and the e-mail alert\<close>

text \<open>
  The functions of this section act on the world outside the program, which is passed
  explicitly:
  \<^item> \<open>files\<close> is the file system: the content of each path that exists;
  \<^item> \<open>open_error\<close> gives the exception that \<open>open(path, "a")\<close> raises, if it raises;
  \<^item> \<open>smtp_error\<close> gives the exception that the SMTP session raises, if it raises;
  \<^item> \<open>stdout\<close> is what has been printed, and \<open>outbox\<close> the messages handed to
    \<open>server.sendmail\<close>.

  A write to a file that has been opened is taken to succeed, \<open>datetime.now()\<close>, formatted,
  is the parameter \<open>timestamp\<close>, and an SMTP session that raises is taken to have sent
  nothing. The two warnings, whose text depends on \<open>str(e)\<close>, and the line
  \<open>Results saved to ...\<close>, which begins with a check mark, are constructors of their own.
\<close>

datatype printed =
    Print string
  | LogWarning string error
  | SaveWarning error
  | ResultsSaved string

record email =
  subject :: string
  sender :: string
  recipient :: string
  body :: string

record world =
  files :: "string \<Rightarrow> string option"
  open_error :: "string \<Rightarrow> error option"
  smtp_error :: "error option"
  stdout :: "printed list"
  outbox :: "email list"

text \<open>\<open>EMAIL_USER\<close> and \<open>EMAIL_TO\<close>, read from the environment.\<close>

record mail_config =
  email_user :: string
  email_to :: string

text \<open>
  Opening a file with mode \<open>"a"\<close> creates it when it is missing; what is written goes
  after what the file holds.
\<close>

definition file_content :: "(string \<Rightarrow> string option) \<Rightarrow> string \<Rightarrow> string" where
  "file_content fs path = (case fs path of None \<Rightarrow> [] | Some old \<Rightarrow> old)"

definition file_append ::
  "(string \<Rightarrow> string option) \<Rightarrow> string \<Rightarrow> string \<Rightarrow> (string \<Rightarrow> string option)"
where
  "file_append fs path written = fs(path \<mapsto> file_content fs path @ written)"

text \<open>
  \<open>_append_to_log\<close> (\<open>main.py\<close>): one \<open>f.write(f"\n[{timestamp}]\n{message}\n")\<close> to the
  file opened for appending; any exception is caught and a warning printed.
\<close>

definition append_to_log :: "string \<Rightarrow> string \<Rightarrow> string \<Rightarrow> world \<Rightarrow> world" where
  "append_to_log timestamp log_file message w =
     (case open_error w log_file of
        Some e \<Rightarrow> w\<lparr>stdout := stdout w @ [LogWarning log_file e]\<rparr>
      | None \<Rightarrow>
          w\<lparr>files := file_append (files w) log_file
                        ([CHR 0x0A] @ ''['' @ timestamp @ '']'' @ [CHR 0x0A]
                         @ message @ [CHR 0x0A])\<rparr>)"

text \<open>
  \<open>send_email_alert\<close> (\<open>main.py\<close>). \<open>store_matches\<close> is a dict, here the list of its items
  in insertion order. \<open>if scrape_test and log_file\<close> and \<open>if log_file\<close> test the truth value
  of \<open>log_file\<close>: neither \<open>None\<close> nor the empty string. The result is the exception that
  leaves the function, if one does, and the world afterwards.
\<close>

fun body_lines :: "(string \<times> string list) list \<Rightarrow> string list" where
  "body_lines [] = []"
| "body_lines ((store', items) # rest) =
     (if items \<noteq> [] then (store' @ '':'') # map (\<lambda>i. ''  - '' @ i) items else [])
     @ body_lines rest"

definition preview_text :: "mail_config \<Rightarrow> string \<Rightarrow> nat \<Rightarrow> string" where
  "preview_text cfg body' total' =
     join_lines
       [[CHR 0x0A] @ replicate 60 CHR ''='',
        ''SCRAPE TEST MODE - Email Preview:'',
        replicate 60 CHR ''='',
        ''Subject: Coles/Woolworths Sale Alert'',
        ''From: '' @ email_user cfg,
        ''To: '' @ email_to cfg,
        [],
        body',
        replicate 60 CHR ''='',
        ''[SCRAPE TEST] Would have sent email with '' @ str_nat total' @ '' match(es).'',
        []]"

definition send_email_alert ::
  "mail_config \<Rightarrow> string \<Rightarrow> (string \<times> string list) list \<Rightarrow> bool \<Rightarrow> string option \<Rightarrow>
   world \<Rightarrow> error option \<times> world"
where
  "send_email_alert cfg timestamp store_matches scrape_test log_file w =
     (let total' = sum_list (map (\<lambda>(store', items). length items) store_matches)
      in if total' = 0 then
           (let msg = ''No matches found; no email sent.'';
                w1 = w\<lparr>stdout := stdout w @ [Print msg]\<rparr>
            in (None,
                case log_file of
                  Some path \<Rightarrow>
                    if scrape_test \<and> path \<noteq> [] then append_to_log timestamp path msg w1
                    else w1
                | None \<Rightarrow> w1))
         else
           (let body' = join_lines (body_lines store_matches)
            in if scrape_test then
                 (let output_text = preview_text cfg body' total';
                      w1 = w\<lparr>stdout := stdout w @ [Print output_text]\<rparr>
                  in (None,
                      case log_file of
                        Some path \<Rightarrow>
                          if path \<noteq> [] then append_to_log timestamp path output_text w1
                          else w1
                      | None \<Rightarrow> w1))
               else
                 (let msg = \<lparr>subject = ''Coles/Woolworths Sale Alert'',
                             sender = email_user cfg,
                             recipient = email_to cfg,
                             body = body'\<rparr>
                  in case smtp_error w of
                       Some e \<Rightarrow> (Some e, w)
                     | None \<Rightarrow>
                         (None,
                          w\<lparr>outbox := outbox w @ [msg],
                            stdout := stdout w
                              @ [Print (''Sent email with '' @ str_nat total'
                                        @ '' match(es).'')]\<rparr>))))"

text \<open>
  \<open>save_results_to_log\<close> (\<open>pdf_parser.py\<close>): a header with the time stamp, then for each
  catalogue its name and one line \<open>  - name @ price\<close> per match, and an empty line, all
  written to the file opened for appending; any exception is caught and a warning printed.
\<close>

fun matches_text :: "product list \<Rightarrow> string" where
  "matches_text [] = []"
| "matches_text (m # ms) =
     ''  - '' @ prod_name m @ '' @ '' @ prod_price m @ [CHR 0x0A] @ matches_text ms"

fun results_text :: "(string \<times> product list) list \<Rightarrow> string" where
  "results_text [] = []"
| "results_text ((catalogue, matches) # rest) =
     catalogue @ '':'' @ [CHR 0x0A] @ matches_text matches @ [CHR 0x0A] @ results_text rest"

definition save_results_to_log ::
  "string \<Rightarrow> (string \<times> product list) list \<Rightarrow> string \<Rightarrow> world \<Rightarrow> world"
where
  "save_results_to_log timestamp results log_file w =
     (case open_error w log_file of
        Some e \<Rightarrow> w\<lparr>stdout := stdout w @ [SaveWarning e]\<rparr>
      | None \<Rightarrow>
          w\<lparr>files := file_append (files w) log_file
                        ([CHR 0x0A] @ replicate 60 CHR ''='' @ [CHR 0x0A]
                         @ ''PDF Parsing Results - '' @ timestamp @ [CHR 0x0A]
                         @ replicate 60 CHR ''='' @ [CHR 0x0A, CHR 0x0A]
                         @ results_text results),
            stdout := stdout w @ [ResultsSaved log_file]\<rparr>)"

text \<open>
  A world with no file, in which nothing fails, the addresses of the alert, and the
  results of one catalogue with one match.
\<close>

definition fresh_world :: world where
  "fresh_world =
     \<lparr>files = (\<lambda>path. None), open_error = (\<lambda>path. None), smtp_error = None,
      stdout = [], outbox = []\<rparr>"

definition example_config :: mail_config where
  "example_config = \<lparr>email_user = ''me@example.org'', email_to = ''me@example.org''\<rparr>"


chapter \<open>Properties\<close>

section \<open>Strings\<close>

lemma str_in_sublist: "str_in needle hay = sublist needle hay"
  by (induction hay) (auto simp: sublist_Cons_right)

section \<open>Watchlist matching\<close>

lemma scan_watchlist_eq:
  "scan_watchlist lower item li wl matches =
     (if \<exists>t \<in> set wl. str_in (lower t) li then matches @ [item] else matches)"
  by (induction wl) auto

lemma find_matches_loop_eq:
  "find_matches_loop lower items wl matches =
     matches @ filter (\<lambda>item. \<exists>t \<in> set wl. str_in (lower t) (lower item)) items"
  by (induction items arbitrary: matches) (auto simp: scan_watchlist_eq)

lemma find_matches_example:
  "find_matches ascii_lower
     [''Tim Tams 200g'', ''Milk'', ''NESCAFE tim tams'', ''Tim Tams 200g'']
     [''tim tams'', ''Nescafe'']
   = [''Tim Tams 200g'', ''NESCAFE tim tams'', ''Tim Tams 200g'']"
  by code_simp

text \<open>
  Claim C1. \<open>find_matches\<close> returns exactly the items whose lowercased text contains a
  lowercased watchlist keyword as a contiguous slice, in input order; an occurrence of an
  item is returned once however many keywords it contains, since the result is the input
  list filtered by a predicate.
\<close>

theorem find_matches_filter:
  "find_matches lower items watchlist =
     filter (\<lambda>item. \<exists>term \<in> set watchlist.
                \<exists>before after. lower item = before @ lower term @ after) items"
  by (simp add: find_matches_def find_matches_loop_eq str_in_sublist sublist_def)

section \<open>Normalisation: the half-price flag\<close>

lemmas normalise_eval =
  normalise_coles_product_def normalise_woolies_product_def
  coles_title_of_def coles_price_val_of_def woolies_title_of_def woolies_price_val_of_def
  was_val_of_def size_of_def url_of_def was_price_of_def half_price_flag_def tolerance_def
  py_or_def dict_get_def example_lib_def example_parse_float_def

lemma half_price_flag_iff:
  "half_price_flag lib p w \<longleftrightarrow>
     (\<exists>x. w = Some x \<and> x \<noteq> Num 0
          \<and> float_le p (float_add lib (float_halve lib x) tolerance))"
  by (cases w) (simp_all add: half_price_flag_def)

lemma half_price_flag_numbers:
  "half_price_flag lib (Num p) (Some (Num w)) \<longleftrightarrow>
     w \<noteq> 0 \<and> p \<le> round_double lib (round_double lib (w / 2) + 5764607523034235 / 2 ^ 59)"
  by (simp add: half_price_flag_def tolerance_def)

lemma normalise_coles_flag:
  "normalise_coles_product lib wn raw = Inr off \<Longrightarrow>
     is_half_price off = half_price_flag lib (price off) (was_price off)"
  by (auto simp: normalise_coles_product_def Let_def split: if_splits sum.splits)

lemma normalise_woolies_flag:
  "normalise_woolies_product lib wn raw = Inr off \<Longrightarrow>
     is_half_price off = half_price_flag lib (price off) (was_price off)"
  by (auto simp: normalise_woolies_product_def Let_def split: if_splits sum.splits)

text \<open>
  Claim C2, as stated, fails where the "was" price is present and zero: the guard
  \<open>if was_price:\<close> is false for \<open>0.0\<close>, so the flag stays false although
  \<open>0.0 <= 0.0 / 2 + 0.01\<close>. The record \<open>{"name": ..., "CurrentPrice": 0, "PreviousPrice": 0}\<close>
  gives an offer with price 0 and "was" price 0 whose flag is false.
\<close>

theorem is_half_price_zero_was_counterexample:
  "normalise_coles_product example_lib ''Tim Tams''
     [(''name'', JStr ''Tim Tam Original''), (''CurrentPrice'', JInt 0), (''PreviousPrice'', JInt 0)]
   = Inr \<lparr>watch_name = ''Tim Tams'', store = ''Coles'', product_title = ''Tim Tam Original'',
           price = Num 0, size = Some [], url = [], was_price = Some (Num 0),
           is_half_price = False\<rparr>
   \<and> float_le (Num 0) (float_add example_lib (float_halve example_lib (Num 0)) tolerance)"
  by (simp add: normalise_eval)

text \<open>
  Claim C2, amended. For an offer built by either normaliser, the flag is true if and only
  if a "was" price is present, is not zero, and the price is at most half the "was" price
  plus 0.01, as the doubles compute and compare them: \<open>price <= was_price / 2 + 0.01\<close>.
  With no "was" price the right-hand side is false, and so is the flag. For a price \<open>p\<close>
  and a "was" price \<open>w\<close> that are numbers, the comparison is that of \<open>p\<close> with the
  rounded sum of the rounded half of \<open>w\<close> and the double nearest to 0.01.
\<close>

theorem is_half_price_iff:
  assumes "normalise_coles_product lib wn raw = Inr off
         \<or> normalise_woolies_product lib wn raw = Inr off"
  shows "(is_half_price off \<longleftrightarrow>
           (\<exists>w. was_price off = Some w \<and> w \<noteq> Num 0
               \<and> float_le (price off) (float_add lib (float_halve lib w) tolerance)))
       \<and> (\<forall>p w. price off = Num p \<and> was_price off = Some (Num w) \<longrightarrow>
             (is_half_price off \<longleftrightarrow>
                w \<noteq> 0
                \<and> p \<le> round_double lib
                         (round_double lib (w / 2) + 5764607523034235 / 2 ^ 59)))"
proof -
  from assms have flag: "is_half_price off = half_price_flag lib (price off) (was_price off)"
    using normalise_coles_flag normalise_woolies_flag by blast
  show ?thesis
  proof (intro conjI allI impI)
    show "is_half_price off \<longleftrightarrow>
           (\<exists>w. was_price off = Some w \<and> w \<noteq> Num 0
               \<and> float_le (price off) (float_add lib (float_halve lib w) tolerance))"
      unfolding flag by (rule half_price_flag_iff)
  next
    fix p w
    assume "price off = Num p \<and> was_price off = Some (Num w)"
    then show "is_half_price off \<longleftrightarrow>
                w \<noteq> 0
                \<and> p \<le> round_double lib
                         (round_double lib (w / 2) + 5764607523034235 / 2 ^ 59)"
      unfolding flag using half_price_flag_numbers [of lib p w] by simp
  qed
qed

theorem is_half_price_iff_witness:
  "normalise_coles_product example_lib ''Tim Tams''
     [(''name'', JStr ''Tim Tam Original''), (''price'', JFloat (Num 2.5)),
      (''wasPrice'', JInt 5)]
   = Inr \<lparr>watch_name = ''Tim Tams'', store = ''Coles'', product_title = ''Tim Tam Original'',
           price = Num 2.5, size = Some [], url = [], was_price = Some (Num 5),
           is_half_price = True\<rparr>
   \<and> (\<exists>w. Some (Num 5) = Some w \<and> w \<noteq> Num 0
          \<and> float_le (Num 2.5) (float_add example_lib (float_halve example_lib w) tolerance))
   \<and> (2.5 :: real) \<le> round_double example_lib
                         (round_double example_lib (5 / 2) + 5764607523034235 / 2 ^ 59)"
proof -
  let ?raw = "[(''name'', JStr ''Tim Tam Original''), (''price'', JFloat (Num 2.5)),
               (''wasPrice'', JInt 5)]"
  let ?off = "\<lparr>watch_name = ''Tim Tams'', store = ''Coles'',
                product_title = ''Tim Tam Original'', price = Num 2.5, size = Some [],
                url = [], was_price = Some (Num 5), is_half_price = True\<rparr>"
  have run: "normalise_coles_product example_lib ''Tim Tams'' ?raw = Inr ?off"
    by (simp add: normalise_eval)
  from is_half_price_iff [of example_lib "''Tim Tams''" ?raw ?off] run
  show ?thesis by (simp add: example_lib_def)
qed

text \<open>
  Claim C3, as stated, fails inside the tolerance: a price of 2.5078125 against a "was"
  price of 5 is flagged, and is more than half of 5.
\<close>

theorem half_price_exact_counterexample:
  "normalise_woolies_product example_lib ''Tim Tams''
     [(''name'', JStr ''Tim Tam Original''), (''price'', JFloat (Num (321 / 128))),
      (''wasPrice'', JInt 5)]
   = Inr \<lparr>watch_name = ''Tim Tams'', store = ''Woolworths'',
           product_title = ''Tim Tam Original'', price = Num (321 / 128), size = Some [],
           url = [], was_price = Some (Num 5), is_half_price = True\<rparr>
   \<and> \<not> float_le (Num (321 / 128)) (float_halve example_lib (Num 5))"
  by (simp add: normalise_eval)

text \<open>
  Claim C3, amended. An offer built by either normaliser whose flag is true has a "was"
  price, which is not zero, and its price is at most half the "was" price plus the
  tolerance 0.01, as the doubles compute and compare them.
\<close>

theorem half_price_within_tolerance:
  assumes "normalise_coles_product lib wn raw = Inr off
         \<or> normalise_woolies_product lib wn raw = Inr off"
    and "is_half_price off"
  shows "\<exists>w. was_price off = Some w \<and> w \<noteq> Num 0
             \<and> float_le (price off) (float_add lib (float_halve lib w) tolerance)"
  using assms normalise_coles_flag normalise_woolies_flag half_price_flag_iff by blast

theorem half_price_within_tolerance_witness:
  "normalise_woolies_product example_lib ''Tim Tams''
     [(''Description'', JStr ''Tim Tam Original''), (''Price'', JStr ''2.50''),
      (''WasPrice'', JStr ''5'')]
   = Inr \<lparr>watch_name = ''Tim Tams'', store = ''Woolworths'',
           product_title = ''Tim Tam Original'', price = Num 2.5, size = Some [], url = [],
           was_price = Some (Num 5), is_half_price = True\<rparr>
   \<and> (\<exists>w. Some (Num 5) = Some w \<and> w \<noteq> Num 0
          \<and> float_le (Num 2.5) (float_add example_lib (float_halve example_lib w) tolerance))"
proof -
  let ?raw = "[(''Description'', JStr ''Tim Tam Original''), (''Price'', JStr ''2.50''),
               (''WasPrice'', JStr ''5'')]"
  let ?off = "\<lparr>watch_name = ''Tim Tams'', store = ''Woolworths'',
                product_title = ''Tim Tam Original'', price = Num 2.5, size = Some [],
                url = [], was_price = Some (Num 5), is_half_price = True\<rparr>"
  have run: "normalise_woolies_product example_lib ''Tim Tams'' ?raw = Inr ?off"
    by (simp add: normalise_eval)
  from half_price_within_tolerance [of example_lib "''Tim Tams''" ?raw ?off] run
  show ?thesis by simp
qed

section \<open>Normalisation: when an offer is returned\<close>














section \<open>Searching for a watch item\<close>

lemmas search_eval =
  find_offers_for_watch_item_def try_store_def extract_products_from_response_def
  is_list_def on_dict_def example_net_def offers_before_failure_def first_failure_def

lemma append_offers_eq:
  "append_offers n raws offers =
     (case find isl (map n raws) of None \<Rightarrow> None | Some r \<Rightarrow> Some (projl r),
      offers @ map projr (takeWhile (\<lambda>r. \<not> isl r) (map n raws)))"
proof (induction raws arbitrary: offers)
  case Nil
  then show ?case by simp
next
  case (Cons raw raws)
  then show ?case by (cases "n raw") simp_all
qed

lemma try_store_eq:
  "try_store search n warn kw st =
     (fst st @ offers_before_failure search n kw,
      snd st @ (case first_failure search n kw of None \<Rightarrow> [] | Some e \<Rightarrow> [warn kw e]))"
  by (auto simp: try_store_def append_offers_eq offers_before_failure_def first_failure_def
           split: sum.splits option.splits)

lemma keywords_loop_eq:
  "keywords_loop lib nt wn kws st =
     (fst st @ concat (map (\<lambda>kw.
          offers_before_failure (search_coles nt) (on_dict (normalise_coles_product lib wn)) kw
        @ offers_before_failure (search_woolies nt)
            (on_dict (normalise_woolies_product lib wn)) kw) kws),
      snd st @ concat (map (\<lambda>kw.
          (case first_failure (search_coles nt) (on_dict (normalise_coles_product lib wn)) kw
           of None \<Rightarrow> [] | Some e \<Rightarrow> [ColesSearchFailed kw e])
        @ (case first_failure (search_woolies nt)
                  (on_dict (normalise_woolies_product lib wn)) kw
           of None \<Rightarrow> [] | Some e \<Rightarrow> [WooliesSearchFailed kw e])) kws))"
  by (induction kws arbitrary: st) (simp_all add: try_store_eq)

lemma all_right_takeWhile:
  "\<forall>r \<in> set rs. \<not> isl r \<Longrightarrow>
     map Inr (map projr (takeWhile (\<lambda>r. \<not> isl r) rs)) = rs"
proof (induction rs)
  case Nil
  then show ?case by simp
next
  case (Cons r rs)
  then show ?case by (cases r) simp_all
qed

lemma no_failure_all_offers:
  assumes "first_failure search n kw = None"
  shows "\<exists>data. search kw = Inr data
           \<and> map n (extract_products_from_response data)
             = map Inr (offers_before_failure search n kw)"
proof -
  from assms obtain data where d: "search kw = Inr data"
    and nf: "find isl (map n (extract_products_from_response data)) = None"
    by (auto simp: first_failure_def split: sum.splits option.splits)
  from nf have "\<forall>r \<in> set (map n (extract_products_from_response data)). \<not> isl r"
    by (simp add: find_None_iff)
  then have "map Inr (map projr (takeWhile (\<lambda>r. \<not> isl r)
                 (map n (extract_products_from_response data))))
             = map n (extract_products_from_response data)"
    by (rule all_right_takeWhile)
  with d show ?thesis by (simp add: offers_before_failure_def)
qed

text \<open>
  Claim C4. With \<open>only_half_price\<close> set, every returned offer has its half-price flag
  set; without it the returned list is the accumulated list, nothing removed. The two
  results differ by that filter alone.
\<close>

theorem find_offers_only_half_price:
  "(only_half_price wi \<longrightarrow>
      (\<forall>off \<in> set (fst (find_offers_for_watch_item lib nt wi)). is_half_price off))
   \<and> (\<not> only_half_price wi \<longrightarrow>
        fst (find_offers_for_watch_item lib nt wi) =
        fst (keywords_loop lib nt (name wi) (match_keywords wi) ([], [])))
   \<and> fst (find_offers_for_watch_item lib nt (wi\<lparr>only_half_price := True\<rparr>)) =
       filter is_half_price
         (fst (find_offers_for_watch_item lib nt (wi\<lparr>only_half_price := False\<rparr>)))"
  by (simp add: find_offers_for_watch_item_def Let_def)

theorem find_offers_only_half_price_witness:
  "fst (find_offers_for_watch_item example_lib example_net
          \<lparr>name = ''Tim Tams'', match_keywords = [''arnotts''], only_half_price = True\<rparr>)
   = [\<lparr>watch_name = ''Tim Tams'', store = ''Coles'', product_title = ''Tim Tam Original'',
        price = Num 3, size = Some [], url = [], was_price = Some (Num 6), is_half_price = True\<rparr>]
   \<and> fst (find_offers_for_watch_item example_lib example_net
          \<lparr>name = ''Tim Tams'', match_keywords = [''arnotts''], only_half_price = False\<rparr>)
   = [\<lparr>watch_name = ''Tim Tams'', store = ''Coles'', product_title = ''Tim Tam Original'',
        price = Num 3, size = Some [], url = [], was_price = Some (Num 6), is_half_price = True\<rparr>,
      \<lparr>watch_name = ''Tim Tams'', store = ''Woolworths'', product_title = ''Arnotts Tim Tam'',
        price = Num 4.5, size = Some [], url = [], was_price = Some (Num 5), is_half_price = False\<rparr>]"
proof -
  let ?t = "\<lparr>name = ''Tim Tams'', match_keywords = [''arnotts''], only_half_price = True\<rparr>"
  let ?f = "\<lparr>name = ''Tim Tams'', match_keywords = [''arnotts''], only_half_price = False\<rparr>"
  have flags: "only_half_price ?t" "\<not> only_half_price ?f"
    by simp_all
  have run: "fst (keywords_loop example_lib example_net (name ?f) (match_keywords ?f) ([], []))
     = [\<lparr>watch_name = ''Tim Tams'', store = ''Coles'', product_title = ''Tim Tam Original'',
          price = Num 3, size = Some [], url = [], was_price = Some (Num 6), is_half_price = True\<rparr>,
        \<lparr>watch_name = ''Tim Tams'', store = ''Woolworths'',
          product_title = ''Arnotts Tim Tam'', price = Num 4.5, size = Some [], url = [],
          was_price = Some (Num 5), is_half_price = False\<rparr>]"
    by (simp add: search_eval normalise_eval)
  from find_offers_only_half_price [of ?f example_lib example_net]
       find_offers_only_half_price [of ?t example_lib example_net] flags run
  show ?thesis by simp
qed

text \<open>
  Claim C6, as stated, fails when a normalisation raises after offers of the same
  (store, keyword) pair were appended. In the example service both pairs of the keyword
  \<open>tim tam\<close> fail and are logged (the second Coles product has no price, the Woolworths
  search raises), so no search succeeded; the result still holds the first Coles offer.
\<close>

theorem find_offers_failed_pair_counterexample:
  "find_offers_for_watch_item example_lib example_net
     \<lparr>name = ''Tim Tams'', match_keywords = [''tim tam''], only_half_price = False\<rparr>
   = ([\<lparr>watch_name = ''Tim Tams'', store = ''Coles'', product_title = ''Tim Tam Original'',
         price = Num 3, size = Some [], url = [], was_price = Some (Num 6), is_half_price = True\<rparr>],
      [ColesSearchFailed ''tim tam'' NoPriceField,
       WooliesSearchFailed ''tim tam'' (RequestError ''503 Service Unavailable'')])"
  by (simp add: search_eval normalise_eval)

text \<open>
  Claim C6, amended. \<open>find_offers_for_watch_item\<close> returns whatever the searches and
  normalisations raise (the model is a total function: every exception is caught by the
  \<open>try\<close> block it occurs in). Its result holds, keyword by keyword and Coles before
  Woolworths, the offers each (store, keyword) pair yielded before its first exception,
  restricted to the half-price ones when the watch item asks so; one warning is printed
  for each pair that raised. A pair that did not raise contributes the offers of all the
  products of its response.
\<close>

theorem find_offers_accumulates:
  fixes lib :: pylib and nt :: net and wi :: WatchItem
  defines "coles \<equiv> on_dict (normalise_coles_product lib (name wi))"
      and "woolies \<equiv> on_dict (normalise_woolies_product lib (name wi))"
  defines "acc \<equiv> concat (map (\<lambda>kw.
                      offers_before_failure (search_coles nt) coles kw
                    @ offers_before_failure (search_woolies nt) woolies kw)
                   (match_keywords wi))"
  shows "find_offers_for_watch_item lib nt wi =
           (if only_half_price wi then filter is_half_price acc else acc,
            concat (map (\<lambda>kw.
                (case first_failure (search_coles nt) coles kw
                 of None \<Rightarrow> [] | Some e \<Rightarrow> [ColesSearchFailed kw e])
              @ (case first_failure (search_woolies nt) woolies kw
                 of None \<Rightarrow> [] | Some e \<Rightarrow> [WooliesSearchFailed kw e]))
              (match_keywords wi)))
       \<and> (\<forall>search n kw. first_failure search n kw = None \<longrightarrow>
            (\<exists>data. search kw = Inr data
               \<and> map n (extract_products_from_response data)
                 = map Inr (offers_before_failure search n kw)))"
  unfolding acc_def coles_def woolies_def
  using no_failure_all_offers
  by (simp add: find_offers_for_watch_item_def keywords_loop_eq Let_def)

theorem find_offers_accumulates_witness:
  "find_offers_for_watch_item example_lib example_net
     \<lparr>name = ''Tim Tams'', match_keywords = [''tim tam'', ''arnotts''], only_half_price = True\<rparr>
   = ([\<lparr>watch_name = ''Tim Tams'', store = ''Coles'', product_title = ''Tim Tam Original'',
         price = Num 3, size = Some [], url = [], was_price = Some (Num 6), is_half_price = True\<rparr>,
       \<lparr>watch_name = ''Tim Tams'', store = ''Coles'', product_title = ''Tim Tam Original'',
         price = Num 3, size = Some [], url = [], was_price = Some (Num 6), is_half_price = True\<rparr>],
      [ColesSearchFailed ''tim tam'' NoPriceField,
       WooliesSearchFailed ''tim tam'' (RequestError ''503 Service Unavailable''),
       ColesSearchFailed ''arnotts'' NoPriceField])
   \<and> (\<exists>data. search_woolies example_net ''arnotts'' = Inr data
        \<and> map (on_dict (normalise_woolies_product example_lib ''Tim Tams''))
              (extract_products_from_response data)
          = [Inr \<lparr>watch_name = ''Tim Tams'', store = ''Woolworths'',
                  product_title = ''Arnotts Tim Tam'', price = Num 4.5, size = Some [], url = [],
                  was_price = Some (Num 5), is_half_price = False\<rparr>])"
proof -
  let ?wi = "\<lparr>name = ''Tim Tams'', match_keywords = [''tim tam'', ''arnotts''],
              only_half_price = True\<rparr>"
  let ?n = "on_dict (normalise_woolies_product example_lib ''Tim Tams'')"
  have ok: "first_failure (search_woolies example_net) ?n ''arnotts'' = None"
    by (simp add: search_eval normalise_eval)
  have got: "offers_before_failure (search_woolies example_net) ?n ''arnotts''
     = [\<lparr>watch_name = ''Tim Tams'', store = ''Woolworths'',
          product_title = ''Arnotts Tim Tam'', price = Num 4.5, size = Some [], url = [],
          was_price = Some (Num 5), is_half_price = False\<rparr>]"
    by (simp add: search_eval normalise_eval)
  have run: "find_offers_for_watch_item example_lib example_net ?wi
   = ([\<lparr>watch_name = ''Tim Tams'', store = ''Coles'', product_title = ''Tim Tam Original'',
         price = Num 3, size = Some [], url = [], was_price = Some (Num 6), is_half_price = True\<rparr>,
       \<lparr>watch_name = ''Tim Tams'', store = ''Coles'', product_title = ''Tim Tam Original'',
         price = Num 3, size = Some [], url = [], was_price = Some (Num 6), is_half_price = True\<rparr>],
      [ColesSearchFailed ''tim tam'' NoPriceField,
       WooliesSearchFailed ''tim tam'' (RequestError ''503 Service Unavailable''),
       ColesSearchFailed ''arnotts'' NoPriceField])"
    by (simp add: search_eval normalise_eval)
  from find_offers_accumulates [of example_lib example_net ?wi]
  have "\<exists>data. search_woolies example_net ''arnotts'' = Inr data
           \<and> map ?n (extract_products_from_response data)
             = map Inr (offers_before_failure (search_woolies example_net) ?n ''arnotts'')"
    using ok by blast
  with got run show ?thesis by simp
qed

section \<open>The report\<close>

lemma float_lt_value:
  "a \<noteq> NaN \<Longrightarrow> b \<noteq> NaN \<Longrightarrow> float_lt a b = (float_value a < float_value b)"
  by (cases a; cases b) simp_all

lemma float_le_value:
  "a \<noteq> NaN \<Longrightarrow> b \<noteq> NaN \<Longrightarrow> float_le a b = (float_value a \<le> float_value b)"
  by (cases a; cases b) simp_all

lemma map_of_dict_set: "map_of (dict_set d k v) = (map_of d)(k \<mapsto> v)"
  by (induction d) (auto simp: fun_eq_iff)

lemma keys_dict_set: "fst ` set (dict_set d k v) = insert k (fst ` set d)"
proof -
  have "dom (map_of (dict_set d k v)) = insert k (dom (map_of d))"
    by (simp add: map_of_dict_set)
  then show ?thesis by (simp add: dom_map_of_conv_image_fst)
qed

lemma distinct_dict_set:
  "distinct (map fst d) \<Longrightarrow> distinct (map fst (dict_set d k v))"
proof (induction d)
  case Nil
  then show ?case by simp
next
  case (Cons kv d)
  obtain k' v' where kv: "kv = (k', v')" by (cases kv)
  show ?case
  proof (cases "k' = k")
    case True
    with Cons.prems kv show ?thesis by simp
  next
    case False
    from Cons.prems kv have "k' \<notin> fst ` set d" and "distinct (map fst d)" by auto
    with False Cons.IH kv show ?thesis by (simp add: keys_dict_set)
  qed
qed

lemma cheapest_invD:
  assumes "cheapest_inv d seen" and "map_of d s = Some c"
  shows "c \<in> seen" and "store c = s"
    and "\<And>off. off \<in> seen \<Longrightarrow> store off = s \<Longrightarrow>
           float_value (price c) \<le> float_value (price off)"
  using assms unfolding cheapest_inv_def by blast+

lemma cheapest_inv_set:
  assumes inv: "cheapest_inv d seen"
    and new: "\<forall>off' \<in> seen. store off' = store off \<longrightarrow>
                float_value (price off) \<le> float_value (price off')"
  shows "cheapest_inv (dict_set d (store off) off) (insert off seen)"
  unfolding cheapest_inv_def
proof (intro conjI allI impI)
  show "distinct (map fst (dict_set d (store off) off))"
    using inv by (simp add: cheapest_inv_def distinct_dict_set)
  show "fst ` set (dict_set d (store off) off) = store ` insert off seen"
    using inv by (simp add: cheapest_inv_def keys_dict_set)
next
  fix s c
  assume m: "map_of (dict_set d (store off) off) s = Some c"
  have "c \<in> insert off seen \<and> store c = s
        \<and> (\<forall>off' \<in> insert off seen. store off' = s \<longrightarrow>
              float_value (price c) \<le> float_value (price off'))"
  proof (cases "s = store off")
    case True
    with m have "c = off" by (simp add: map_of_dict_set)
    with True new show ?thesis by auto
  next
    case False
    with m have old: "map_of d s = Some c" by (simp add: map_of_dict_set)
    from cheapest_invD [OF inv old] False show ?thesis by auto
  qed
  then show "c \<in> insert off seen" and "store c = s"
    and "\<forall>off' \<in> insert off seen. store off' = s \<longrightarrow>
           float_value (price c) \<le> float_value (price off')"
    by simp_all
qed

lemma cheapest_inv_keep:
  assumes inv: "cheapest_inv d seen"
    and old: "map_of d (store off) = Some c"
             "\<not> float_value (price off) < float_value (price c)"
  shows "cheapest_inv d (insert off seen)"
  unfolding cheapest_inv_def
proof (intro conjI allI impI)
  show "distinct (map fst d)"
    using inv by (simp add: cheapest_inv_def)
  have "store off \<in> fst ` set d"
    using old(1) by (metis map_of_eq_None_iff option.distinct(1))
  moreover have "fst ` set d = store ` seen"
    using inv by (simp add: cheapest_inv_def)
  ultimately show "fst ` set d = store ` insert off seen"
    by auto
next
  fix s c'
  assume m: "map_of d s = Some c'"
  have "c' \<in> insert off seen \<and> store c' = s
        \<and> (\<forall>off' \<in> insert off seen. store off' = s \<longrightarrow>
              float_value (price c') \<le> float_value (price off'))"
  proof (cases "s = store off")
    case True
    with m old(1) have "c' = c" by simp
    with old(2) have "float_value (price c') \<le> float_value (price off)" by simp
    with cheapest_invD [OF inv m] show ?thesis by auto
  next
    case False
    with cheapest_invD [OF inv m] show ?thesis by auto
  qed
  then show "c' \<in> insert off seen" and "store c' = s"
    and "\<forall>off' \<in> insert off seen. store off' = s \<longrightarrow>
           float_value (price c') \<le> float_value (price off')"
    by simp_all
qed

lemma cheapest_inv_step:
  assumes inv: "cheapest_inv d seen"
    and num: "price off \<noteq> NaN" "\<forall>off' \<in> seen. price off' \<noteq> NaN"
  shows "cheapest_inv
           (case map_of d (store off) of
              None \<Rightarrow> dict_set d (store off) off
            | Some c \<Rightarrow>
                if float_lt (price off) (price c) then dict_set d (store off) off else d)
           (insert off seen)"
proof (cases "map_of d (store off)")
  case None
  then have "store off \<notin> fst ` set d"
    by (simp add: map_of_eq_None_iff)
  with inv have "\<forall>off' \<in> seen. store off' \<noteq> store off"
    unfolding cheapest_inv_def by (metis imageI)
  then have "\<forall>off' \<in> seen. store off' = store off \<longrightarrow>
               float_value (price off) \<le> float_value (price off')"
    by simp
  from cheapest_inv_set [OF inv this] None show ?thesis by simp
next
  case (Some c)
  from cheapest_invD(1) [OF inv Some] num(2) have cnum: "price c \<noteq> NaN" by blast
  have lt: "float_lt (price off) (price c) = (float_value (price off) < float_value (price c))"
    by (rule float_lt_value [OF num(1) cnum])
  show ?thesis
  proof (cases "float_value (price off) < float_value (price c)")
    case True
    from cheapest_invD(3) [OF inv Some]
    have "\<forall>off' \<in> seen. store off' = store off \<longrightarrow>
            float_value (price c) \<le> float_value (price off')"
      by blast
    with True have "\<forall>off' \<in> seen. store off' = store off \<longrightarrow>
                      float_value (price off) \<le> float_value (price off')"
      by force
    from cheapest_inv_set [OF inv this] Some True lt show ?thesis by simp
  next
    case False
    from cheapest_inv_keep [OF inv Some False] Some False lt show ?thesis by simp
  qed
qed

lemma cheapest_loop_inv:
  "cheapest_inv d seen \<Longrightarrow> \<forall>off \<in> seen \<union> set offs. price off \<noteq> NaN \<Longrightarrow>
     cheapest_inv (cheapest_loop offs d) (seen \<union> set offs)"
proof (induction offs arbitrary: d seen)
  case Nil
  then show ?case by simp
next
  case (Cons off offs)
  from Cons.prems(2) have num: "price off \<noteq> NaN" "\<forall>off' \<in> seen. price off' \<noteq> NaN"
    by simp_all
  from Cons.prems(2) have rest: "\<forall>off' \<in> insert off seen \<union> set offs. price off' \<noteq> NaN"
    by simp
  from Cons.IH [OF cheapest_inv_step [OF Cons.prems(1) num] rest]
  show ?case by simp
qed

lemma cheapest_inv_empty: "cheapest_inv [] {}"
  by (simp add: cheapest_inv_def)

lemma min_by_price_in: "min_by_price b offs \<in> insert b (set offs)"
  by (induction offs arbitrary: b) auto

lemma min_by_price_le:
  "\<forall>off \<in> insert b (set offs). price off \<noteq> NaN \<Longrightarrow>
     float_value (price (min_by_price b offs)) \<le> float_value (price b)
     \<and> (\<forall>off \<in> set offs.
           float_value (price (min_by_price b offs)) \<le> float_value (price off))"
proof (induction offs arbitrary: b)
  case Nil
  then show ?case by simp
next
  case (Cons off offs)
  let ?b = "if float_lt (price off) (price b) then off else b"
  from Cons.prems have num: "price off \<noteq> NaN" "price b \<noteq> NaN" by simp_all
  from Cons.prems have "\<forall>off' \<in> insert ?b (set offs). price off' \<noteq> NaN" by simp
  from Cons.IH [OF this] float_lt_value [OF num]
  show ?case by (auto split: if_splits)
qed

lemma cheapest_lines_cases:
  assumes inv: "cheapest_inv d seen" and num: "\<forall>off \<in> seen. price off \<noteq> NaN"
  shows "if 2 \<le> card (store ` seen)
         then \<exists>c \<in> seen. cheapest_lines lib d
                  = [''**Cheapest overall:** '' @ store c @ '' at $'' @ fmt2 lib (price c)]
                \<and> (\<forall>off \<in> seen. float_le (price c) (price off))
         else cheapest_lines lib d = []"
proof -
  from inv have dist: "distinct (map fst d)" and keys: "fst ` set d = store ` seen"
    by (simp_all add: cheapest_inv_def)
  have len: "length d = card (store ` seen)"
    using dist keys by (metis distinct_card length_map set_map)
  show ?thesis
  proof (cases "2 \<le> card (store ` seen)")
    case False
    with len show ?thesis by (simp add: cheapest_lines_def)
  next
    case True
    with len obtain v vs where vs: "map snd d = v # vs"
      by (cases d) auto
    let ?c = "min_by_price v vs"
    have line: "cheapest_lines lib d
        = [''**Cheapest overall:** '' @ store ?c @ '' at $'' @ fmt2 lib (price ?c)]"
      using True len vs by (simp add: cheapest_lines_def Let_def)
    have vals: "\<And>c'. c' \<in> set (map snd d) \<Longrightarrow> c' \<in> seen"
    proof -
      fix c' assume "c' \<in> set (map snd d)"
      then obtain s where "(s, c') \<in> set d" by auto
      with dist have "map_of d s = Some c'" by simp
      with inv show "c' \<in> seen" by (simp add: cheapest_inv_def)
    qed
    have "?c \<in> set (map snd d)"
      using min_by_price_in [of v vs] vs by simp
    then have cin: "?c \<in> seen" by (rule vals)
    have vnum: "\<forall>off \<in> insert v (set vs). price off \<noteq> NaN"
      using vals num vs by (metis list.simps(15))
    have "\<forall>off \<in> seen. float_le (price ?c) (price off)"
    proof
      fix off assume o: "off \<in> seen"
      with keys have "store off \<in> fst ` set d" by auto
      then obtain c' where c': "map_of d (store off) = Some c'"
        by (metis map_of_eq_None_iff not_Some_eq)
      with inv o have le: "float_value (price c') \<le> float_value (price off)"
        by (simp add: cheapest_inv_def)
      from c' have "c' \<in> set (map snd d)"
        by (metis map_of_SomeD image_eqI set_map snd_conv)
      with vs have "c' \<in> insert v (set vs)" by simp
      with min_by_price_le [OF vnum]
      have "float_value (price ?c) \<le> float_value (price c')" by auto
      with le have "float_value (price ?c) \<le> float_value (price off)" by simp
      with float_le_value [of "price ?c" "price off"] num cin o
      show "float_le (price ?c) (price off)" by simp
    qed
    with True line cin show ?thesis by auto
  qed
qed

lemma comparable_numbers:
  "\<forall>off \<in> set offers. price off \<noteq> NaN \<Longrightarrow> comparable_prices offers"
  by (simp add: comparable_prices_def list_all_iff)

lemma sorted_by_store_price:
  assumes num: "\<forall>off \<in> set offers. price off \<noteq> NaN"
  shows "sorted_wrt (\<lambda>a b. store a < store b
                          \<or> (store a = store b \<and> float_le (price a) (price b)))
           (sort_key (\<lambda>off. (store off, float_value (price off))) offers)"
proof -
  let ?key = "\<lambda>off. (store off, float_value (price off))"
  let ?listed = "sort_key ?key offers"
  have "sorted (map ?key ?listed)" by (rule sorted_sort_key)
  then have "sorted_wrt (\<lambda>a b. ?key a \<le> ?key b) ?listed"
    by (simp add: sorted_map)
  moreover have "\<And>a b. a \<in> set ?listed \<Longrightarrow> b \<in> set ?listed \<Longrightarrow> ?key a \<le> ?key b \<Longrightarrow>
      store a < store b \<or> (store a = store b \<and> float_le (price a) (price b))"
  proof -
    fix a b
    assume "a \<in> set ?listed" "b \<in> set ?listed" and le: "?key a \<le> ?key b"
    with num have "price a \<noteq> NaN" "price b \<noteq> NaN" by simp_all
    with le float_le_value [of "price a" "price b"]
    show "store a < store b \<or> (store a = store b \<and> float_le (price a) (price b))"
      by (auto simp: less_eq_prod_def)
  qed
  ultimately show ?thesis
    by (rule sorted_wrt_mono_rel [rotated])
qed

lemma watch_lines_block:
  assumes ne: "offers \<noteq> []" and num: "\<forall>off \<in> set offers. price off \<noteq> NaN"
  shows "\<exists>listed tail.
           watch_lines lib n offers
             = Some ((''## '' @ n) # map (offer_line lib) listed @ tail @ [[]])
           \<and> mset listed = mset offers
           \<and> sorted_wrt (\<lambda>a b. store a < store b
                               \<or> (store a = store b \<and> float_le (price a) (price b))) listed
           \<and> (if 2 \<le> card (store ` set offers)
              then \<exists>c \<in> set offers.
                     tail = [''**Cheapest overall:** '' @ store c @ '' at $''
                             @ fmt2 lib (price c)]
                     \<and> (\<forall>off \<in> set offers. float_le (price c) (price off))
              else tail = [])"
proof -
  let ?listed = "sort_key (\<lambda>off. (store off, float_value (price off))) offers"
  let ?tail = "cheapest_lines lib (cheapest_loop ?listed [])"
  have sorted: "py_sorted offers = Some ?listed"
    using comparable_numbers [OF num] by (simp add: py_sorted_def)
  have "cheapest_inv (cheapest_loop ?listed []) ({} \<union> set ?listed)"
    using num by (intro cheapest_loop_inv cheapest_inv_empty) simp
  then have inv: "cheapest_inv (cheapest_loop ?listed []) (set offers)" by simp
  from cheapest_lines_cases [OF inv num, of lib]
  have tail: "if 2 \<le> card (store ` set offers)
              then \<exists>c \<in> set offers.
                     ?tail = [''**Cheapest overall:** '' @ store c @ '' at $''
                              @ fmt2 lib (price c)]
                     \<and> (\<forall>off \<in> set offers. float_le (price c) (price off))
              else ?tail = []" .
  have "watch_lines lib n offers
          = Some ((''## '' @ n) # map (offer_line lib) ?listed @ ?tail @ [[]])"
    using ne sorted by (simp add: watch_lines_def Let_def)
  moreover have "mset ?listed = mset offers" by simp
  moreover note sorted_by_store_price [OF num] tail
  ultimately show ?thesis by blast
qed

lemma report_loop_blocks:
  "list_all2 (\<lambda>(n, offers) block. watch_lines lib n offers = Some block) all_offers blocks
   \<Longrightarrow> report_loop lib all_offers lines = Some (lines @ concat blocks)"
proof (induction all_offers arbitrary: blocks lines)
  case Nil
  then show ?case by simp
next
  case (Cons item rest)
  obtain n offers where item: "item = (n, offers)" by (cases item)
  from Cons.prems obtain block blocks' where blocks: "blocks = block # blocks'"
    and first: "watch_lines lib n offers = Some block"
    and others: "list_all2 (\<lambda>(n, offers) block. watch_lines lib n offers = Some block)
                   rest blocks'"
    by (auto simp: item list_all2_Cons1)
  from Cons.IH [OF others, of "lines @ block"] first item blocks
  show ?case by simp
qed

lemma list_all2_choice:
  "\<forall>x \<in> set xs. \<exists>y. Q x y \<Longrightarrow> \<exists>ys. list_all2 Q xs ys"
proof (induction xs)
  case Nil
  then show ?case by simp
next
  case (Cons x xs)
  then obtain y ys where "Q x y" "list_all2 Q xs ys" by auto
  then have "list_all2 Q (x # xs) (y # ys)" by simp
  then show ?case by blast
qed


lemmas report_eval =
  build_report_def watch_lines_def py_sorted_def comparable_prices_def cheapest_lines_def
  offer_line_def example_lib_def example_fmt2_def digit_char_def
  less_eq_prod_def less_prod_def

lemma example_report:
  "build_report example_lib [(''Tim Tams'', example_offers), (''Nescafe'', [])]
   = Some (''## Tim Tams'' @ [CHR 0x0A]
           @ ''- Coles: Tim Tam Original - $3.00 (was $6.00) [HALF PRICE?]'' @ [CHR 0x0A]
           @ ''- Coles: Tim Tam White - $4.00 '' @ [CHR 0x0A]
           @ ''- Woolworths: Arnotts Tim Tam - $4.50 (was $5.00) - 330g'' @ [CHR 0x0A]
           @ ''**Cheapest overall:** Coles at $3.00'' @ [CHR 0x0A]
           @ [CHR 0x0A]
           @ ''## Nescafe'' @ [CHR 0x0A]
           @ ''No matching products or specials found.'' @ [CHR 0x0A])"
  by (simp add: report_eval example_offers_def str_nat.simps)

text \<open>
  Claim C9, as stated, fails on a NaN price. With one Coles offer priced NaN and one
  Woolworths offer at 1.50 the report names Coles at \<open>$nan\<close> as cheapest overall: \<open>min\<close>
  keeps its first element, since \<open>1.5 < nan\<close> is false, although NaN is not at most 1.5.
\<close>

theorem build_report_nan_counterexample:
  "build_report example_lib [(''Tim Tams'', nan_offers)]
   = Some (''## Tim Tams'' @ [CHR 0x0A]
           @ ''- Coles: Tim Tam Original - $nan '' @ [CHR 0x0A]
           @ ''- Woolworths: Arnotts Tim Tam - $1.50 '' @ [CHR 0x0A]
           @ ''**Cheapest overall:** Coles at $nan'' @ [CHR 0x0A])
   \<and> price (nan_offers ! 0) = NaN \<and> price (nan_offers ! 1) = Num 1.5
   \<and> \<not> float_le NaN (Num 1.5)"
  by (simp add: report_eval nan_offers_def str_nat.simps)

text \<open>
  Claim C9, amended. For every map from watch names to offer lists none of whose prices
  is NaN, the report is the lines of one block per watch item, in the order of the map,
  joined by newlines. The block of a watch item without offers is its header and the
  notice; the block of a watch item with offers is its header, the lines of its offers
  (each naming the store, the title and the price) in the order sorted by (store, price)
  ascending, a permutation of its offers, then a "Cheapest overall" line if and only if
  the offers come from at least two distinct stores, and a blank line. The "Cheapest
  overall" line names the store and the price of an offer that no offer of the watch item
  undercuts, so it is least among the per-store cheapest offers too.
\<close>

lemma offer_line_begins:
  "\<exists>rest. offer_line lib off
     = ''- '' @ store off @ '': '' @ product_title off @ '' '' @ dash lib @ '' $''
       @ fmt2 lib (price off) @ '' '' @ rest"
  by (simp add: offer_line_def Let_def)

theorem build_report_text:
  assumes "\<forall>(n, offers) \<in> set all_offers. \<forall>off \<in> set offers. price off \<noteq> NaN"
  shows "(\<exists>blocks.
           build_report lib all_offers = Some (join_lines (concat blocks))
           \<and> list_all2
               (\<lambda>(n, offers) block.
                  if offers = []
                  then block = [''## '' @ n,
                                ''No matching products or specials found.'' @ [CHR 0x0A]]
                  else \<exists>listed tail.
                         block = (''## '' @ n) # map (offer_line lib) listed @ tail @ [[]]
                         \<and> mset listed = mset offers
                         \<and> sorted_wrt
                             (\<lambda>a b. store a < store b
                                \<or> (store a = store b \<and> float_le (price a) (price b)))
                             listed
                         \<and> (if 2 \<le> card (store ` set offers)
                            then \<exists>c \<in> set offers.
                                   tail = [''**Cheapest overall:** '' @ store c @ '' at $''
                                           @ fmt2 lib (price c)]
                                   \<and> (\<forall>off \<in> set offers. float_le (price c) (price off))
                            else tail = []))
               all_offers blocks)
       \<and> (\<forall>off. \<exists>rest. offer_line lib off
              = ''- '' @ store off @ '': '' @ product_title off @ '' '' @ dash lib @ '' $''
                @ fmt2 lib (price off) @ '' '' @ rest)"
proof
  let ?Q = "\<lambda>(n, offers) block.
                  (if offers = []
                  then block = [''## '' @ n,
                                ''No matching products or specials found.'' @ [CHR 0x0A]]
                  else \<exists>listed tail.
                         block = (''## '' @ n) # map (offer_line lib) listed @ tail @ [[]]
                         \<and> mset listed = mset offers
                         \<and> sorted_wrt
                             (\<lambda>a b. store a < store b
                                \<or> (store a = store b \<and> float_le (price a) (price b)))
                             listed
                         \<and> (if 2 \<le> card (store ` set offers)
                            then \<exists>c \<in> set offers.
                                   tail = [''**Cheapest overall:** '' @ store c @ '' at $''
                                           @ fmt2 lib (price c)]
                                   \<and> (\<forall>off \<in> set offers. float_le (price c) (price off))
                            else tail = []))"
  let ?R = "\<lambda>item block. (case item of (n, offers) \<Rightarrow> watch_lines lib n offers = Some block)
                         \<and> ?Q item block"
  have "\<forall>item \<in> set all_offers. \<exists>block. ?R item block"
  proof
    fix item assume mem: "item \<in> set all_offers"
    obtain n offers where item: "item = (n, offers)" by (cases item)
    show "\<exists>block. ?R item block"
    proof (cases "offers = []")
      case True
      then show ?thesis by (simp add: item watch_lines_def)
    next
      case False
      from assms mem item have num: "\<forall>off \<in> set offers. price off \<noteq> NaN" by auto
      from watch_lines_block [OF False num, of lib n]
      obtain listed tail
        where wl: "watch_lines lib n offers
                     = Some ((''## '' @ n) # map (offer_line lib) listed @ tail @ [[]])"
          and ms: "mset listed = mset offers"
          and so: "sorted_wrt
                     (\<lambda>a b. store a < store b
                        \<or> (store a = store b \<and> float_le (price a) (price b))) listed"
          and tl: "if 2 \<le> card (store ` set offers)
                   then \<exists>c \<in> set offers.
                          tail = [''**Cheapest overall:** '' @ store c @ '' at $''
                                  @ fmt2 lib (price c)]
                          \<and> (\<forall>off \<in> set offers. float_le (price c) (price off))
                   else tail = []"
        by blast
      let ?block = "(''## '' @ n) # map (offer_line lib) listed @ tail @ [[]]"
      have "?Q item ?block"
        unfolding item case_prod_conv if_not_P [OF False]
        by (intro exI [of _ listed] exI [of _ tail] conjI refl ms so tl)
      with wl have "?R item ?block"
        unfolding item case_prod_conv by (intro conjI)
      then show ?thesis by (rule exI)
    qed
  qed
  then obtain blocks where both: "list_all2 ?R all_offers blocks"
    using list_all2_choice [of all_offers ?R] by blast
  then have run: "list_all2 (\<lambda>(n, offers) block. watch_lines lib n offers = Some block)
                    all_offers blocks"
    by (rule list_all2_mono) auto
  from both have shape: "list_all2 ?Q all_offers blocks"
    by (rule list_all2_mono) auto
  from report_loop_blocks [OF run, of "[]"]
  have "build_report lib all_offers = Some (join_lines (concat blocks))"
    by (simp add: build_report_def)
  with shape show "\<exists>blocks. build_report lib all_offers = Some (join_lines (concat blocks))
                     \<and> list_all2 ?Q all_offers blocks"
    by blast
next
  show "\<forall>off. \<exists>rest. offer_line lib off
              = ''- '' @ store off @ '': '' @ product_title off @ '' '' @ dash lib @ '' $''
                @ fmt2 lib (price off) @ '' '' @ rest"
    using offer_line_begins by blast
qed

theorem build_report_text_witness:
  "list_all (\<lambda>off. price off \<noteq> NaN) example_offers
   \<and> build_report example_lib [(''Tim Tams'', example_offers), (''Nescafe'', [])]
     = Some (''## Tim Tams'' @ [CHR 0x0A]
             @ ''- Coles: Tim Tam Original - $3.00 (was $6.00) [HALF PRICE?]'' @ [CHR 0x0A]
             @ ''- Coles: Tim Tam White - $4.00 '' @ [CHR 0x0A]
             @ ''- Woolworths: Arnotts Tim Tam - $4.50 (was $5.00) - 330g'' @ [CHR 0x0A]
             @ ''**Cheapest overall:** Coles at $3.00'' @ [CHR 0x0A]
             @ [CHR 0x0A]
             @ ''## Nescafe'' @ [CHR 0x0A]
             @ ''No matching products or specials found.'' @ [CHR 0x0A])
   \<and> (\<exists>blocks.
         build_report example_lib [(''Tim Tams'', example_offers), (''Nescafe'', [])]
           = Some (join_lines (concat blocks))
         \<and> length blocks = 2)"
proof -
  let ?all = "[(''Tim Tams'', example_offers), (''Nescafe'', [])]"
  have numbers: "list_all (\<lambda>off. price off \<noteq> NaN) example_offers"
    by (simp add: example_offers_def)
  then have hyp: "\<forall>(n, offers) \<in> set ?all. \<forall>off \<in> set offers. price off \<noteq> NaN"
    by (simp add: list_all_iff)
  from build_report_text [OF hyp, of example_lib, THEN conjunct1]
  obtain blocks where "build_report example_lib ?all = Some (join_lines (concat blocks))"
    and "length blocks = length ?all"
    by (auto dest: list_all2_lengthD)
  then have "\<exists>blocks. build_report example_lib ?all = Some (join_lines (concat blocks))
                \<and> length blocks = 2"
    by auto
  with numbers example_report show ?thesis by blast
qed

section \<open>Products of a catalogue\<close>












section \<open>Log files\<close>




lemma append_to_log_outbox: "outbox (append_to_log ts log_file message w) = outbox w"
  by (simp add: append_to_log_def split: option.splits)



lemmas world_eval =
  send_email_alert_def append_to_log_def save_results_to_log_def file_append_def
  file_content_def fresh_world_def example_config_def




section \<open>The e-mail alert\<close>

lemma no_matches_result:
  assumes "sum_list (map (\<lambda>(store', items). length items) store_matches) = 0"
  shows "send_email_alert cfg ts store_matches scrape_test log_file w =
           (None,
            case log_file of
              Some path \<Rightarrow>
                if scrape_test \<and> path \<noteq> []
                then append_to_log ts path ''No matches found; no email sent.''
                       (w\<lparr>stdout := stdout w @ [Print ''No matches found; no email sent.'']\<rparr>)
                else w\<lparr>stdout := stdout w @ [Print ''No matches found; no email sent.'']\<rparr>
            | None \<Rightarrow> w\<lparr>stdout := stdout w @ [Print ''No matches found; no email sent.'']\<rparr>)"
  using assms by (simp add: send_email_alert_def Let_def)

lemma send_email_alert_outbox:
  "outbox (snd (send_email_alert cfg ts store_matches scrape_test log_file w)) \<noteq> outbox w
   \<Longrightarrow> 0 < sum_list (map (\<lambda>(store', items). length items) store_matches) \<and> \<not> scrape_test"
  by (auto simp: send_email_alert_def Let_def append_to_log_outbox
           simp del: sum_list_eq_0_iff split: option.splits if_splits)

text \<open>
  Claim C10, as stated, fails on the words "no other effect": with no match, in scrape-test
  mode with a log file, the notice is also appended to the log file, which is created.
\<close>

theorem send_email_alert_log_counterexample:
  "sum_list (map (\<lambda>(s, items). length items) [(''Coles'', []), (''Woolworths'', [])]) = 0
   \<and> files fresh_world ''scrape_test.log'' = None
   \<and> files (snd (send_email_alert example_config ''2025-01-01 09:00:00''
                    [(''Coles'', []), (''Woolworths'', [])] True (Some ''scrape_test.log'')
                    fresh_world)) ''scrape_test.log''
     = Some ([CHR 0x0A] @ ''[2025-01-01 09:00:00]'' @ [CHR 0x0A]
             @ ''No matches found; no email sent.'' @ [CHR 0x0A])"
  by (simp add: world_eval)

text \<open>
  Claim C10, amended. For every map from store names to match lists with no match at all,
  \<open>send_email_alert\<close> raises nothing, sends no e-mail and prints the notice
  \<open>No matches found; no email sent.\<close>; in scrape-test mode with a log file named, it also
  appends the notice, under a time stamp, to that file, or prints a warning if the file
  cannot be opened; otherwise it has no other effect. An e-mail is sent only when there is
  at least one match and the mode is not scrape-test.
\<close>

theorem send_email_alert_no_matches:
  "(sum_list (map (\<lambda>(s, items). length items) store_matches) = 0 \<longrightarrow>
      fst (send_email_alert cfg ts store_matches scrape_test log_file w) = None
    \<and> outbox (snd (send_email_alert cfg ts store_matches scrape_test log_file w)) = outbox w
    \<and> (\<forall>path. scrape_test \<and> log_file = Some path \<and> path \<noteq> [] \<longrightarrow>
          snd (send_email_alert cfg ts store_matches scrape_test log_file w)
            = (case open_error w path of
                 None \<Rightarrow>
                   w\<lparr>stdout := stdout w @ [Print ''No matches found; no email sent.''],
                     files := (files w)(path \<mapsto> file_content (files w) path
                                @ [CHR 0x0A] @ ''['' @ ts @ '']'' @ [CHR 0x0A]
                                @ ''No matches found; no email sent.'' @ [CHR 0x0A])\<rparr>
               | Some e \<Rightarrow>
                   w\<lparr>stdout := stdout w @ [Print ''No matches found; no email sent.'',
                                             LogWarning path e]\<rparr>))
    \<and> (\<not> scrape_test \<or> log_file = None \<or> log_file = Some [] \<longrightarrow>
          snd (send_email_alert cfg ts store_matches scrape_test log_file w)
            = w\<lparr>stdout := stdout w @ [Print ''No matches found; no email sent.'']\<rparr>))
   \<and> (outbox (snd (send_email_alert cfg ts store_matches scrape_test log_file w)) \<noteq> outbox w
        \<longrightarrow> 0 < sum_list (map (\<lambda>(s, items). length items) store_matches) \<and> \<not> scrape_test)"
proof (intro conjI allI impI)
  assume zero: "sum_list (map (\<lambda>(s, items). length items) store_matches) = 0"
  note result = no_matches_result [OF zero, of cfg ts scrape_test log_file w]
  show "fst (send_email_alert cfg ts store_matches scrape_test log_file w) = None"
    by (simp add: result)
  show "outbox (snd (send_email_alert cfg ts store_matches scrape_test log_file w)) = outbox w"
    by (simp add: result append_to_log_outbox split: option.splits)
  {
    fix path
    assume "scrape_test \<and> log_file = Some path \<and> path \<noteq> []"
    then have st: "scrape_test = True" and lf: "log_file = Some path" and ne: "path \<noteq> []"
      by simp_all
    show "snd (send_email_alert cfg ts store_matches scrape_test log_file w)
            = (case open_error w path of
                 None \<Rightarrow>
                   w\<lparr>stdout := stdout w @ [Print ''No matches found; no email sent.''],
                     files := (files w)(path \<mapsto> file_content (files w) path
                                @ [CHR 0x0A] @ ''['' @ ts @ '']'' @ [CHR 0x0A]
                                @ ''No matches found; no email sent.'' @ [CHR 0x0A])\<rparr>
               | Some e \<Rightarrow>
                   w\<lparr>stdout := stdout w @ [Print ''No matches found; no email sent.'',
                                             LogWarning path e]\<rparr>)"
      unfolding st lf
      using no_matches_result [OF zero, of cfg ts True "Some path" w] ne
      by (simp add: append_to_log_def file_append_def split: option.splits)
  }
  {
    assume "\<not> scrape_test \<or> log_file = None \<or> log_file = Some []"
    then show "snd (send_email_alert cfg ts store_matches scrape_test log_file w)
            = w\<lparr>stdout := stdout w @ [Print ''No matches found; no email sent.'']\<rparr>"
      by (auto simp: result split: option.splits)
  }
next
  assume "outbox (snd (send_email_alert cfg ts store_matches scrape_test log_file w))
            \<noteq> outbox w"
  from send_email_alert_outbox [OF this]
  show "0 < sum_list (map (\<lambda>(s, items). length items) store_matches)" and "\<not> scrape_test"
    by simp_all
qed

theorem send_email_alert_no_matches_witness:
  "send_email_alert example_config ''2025-01-01 09:00:00''
     [(''Coles'', []), (''Woolworths'', [])] False None fresh_world
   = (None, fresh_world\<lparr>stdout := [Print ''No matches found; no email sent.'']\<rparr>)
   \<and> snd (send_email_alert example_config ''2025-01-01 09:00:00''
            [(''Coles'', []), (''Woolworths'', [])] True (Some ''scrape_test.log'') fresh_world)
     = fresh_world\<lparr>stdout := [Print ''No matches found; no email sent.''],
         files := (files fresh_world)(''scrape_test.log'' \<mapsto>
                    [CHR 0x0A] @ ''[2025-01-01 09:00:00]'' @ [CHR 0x0A]
                    @ ''No matches found; no email sent.'' @ [CHR 0x0A])\<rparr>
   \<and> outbox (snd (send_email_alert example_config ''2025-01-01 09:00:00''
                    [(''Coles'', [''Tim Tams 200g $3.65'']), (''Woolworths'', [])] False None
                    fresh_world))
     = [\<lparr>subject = ''Coles/Woolworths Sale Alert'', sender = ''me@example.org'',
         recipient = ''me@example.org'',
         body = ''Coles:'' @ [CHR 0x0A] @ ''  - Tim Tams 200g $3.65''\<rparr>]
   \<and> 0 < sum_list (map (\<lambda>(s, items). length items)
                     [(''Coles'', [''Tim Tams 200g $3.65'']), (''Woolworths'', [])])"
proof -
  let ?ts = "''2025-01-01 09:00:00''"
  let ?none = "[(''Coles'', []), (''Woolworths'', [])] :: (string \<times> string list) list"
  let ?one = "[(''Coles'', [''Tim Tams 200g $3.65'']), (''Woolworths'', [])]"
  have zero: "sum_list (map (\<lambda>(s, items). length items) ?none) = 0"
    by simp
  have fresh: "stdout fresh_world = []" "outbox fresh_world = []"
    "open_error fresh_world ''scrape_test.log'' = None"
    "file_content (files fresh_world) ''scrape_test.log'' = []"
    by (simp_all add: fresh_world_def file_content_def)
  note quiet = send_email_alert_no_matches
    [where store_matches = ?none and cfg = example_config and ts = ?ts
       and scrape_test = False and log_file = None and w = fresh_world,
     THEN conjunct1, rule_format, OF zero]
  note logged = send_email_alert_no_matches
    [where store_matches = ?none and cfg = example_config and ts = ?ts
       and scrape_test = True and log_file = "Some ''scrape_test.log''" and w = fresh_world,
     THEN conjunct1, rule_format, OF zero]
  note sent = send_email_alert_no_matches
    [where store_matches = ?one and cfg = example_config and ts = ?ts
       and scrape_test = False and log_file = None and w = fresh_world,
     THEN conjunct2, rule_format]
  have a: "send_email_alert example_config ?ts ?none False None fresh_world
     = (None, fresh_world\<lparr>stdout := [Print ''No matches found; no email sent.'']\<rparr>)"
    using quiet by (simp add: prod_eq_iff fresh)
  have b: "snd (send_email_alert example_config ?ts ?none True (Some ''scrape_test.log'')
                 fresh_world)
     = fresh_world\<lparr>stdout := [Print ''No matches found; no email sent.''],
         files := (files fresh_world)(''scrape_test.log'' \<mapsto>
                    [CHR 0x0A] @ ''[2025-01-01 09:00:00]'' @ [CHR 0x0A]
                    @ ''No matches found; no email sent.'' @ [CHR 0x0A])\<rparr>"
    using logged by (simp add: fresh)
  have run: "outbox (snd (send_email_alert example_config ?ts ?one False None fresh_world))
     = [\<lparr>subject = ''Coles/Woolworths Sale Alert'', sender = ''me@example.org'',
         recipient = ''me@example.org'',
         body = ''Coles:'' @ [CHR 0x0A] @ ''  - Tim Tams 200g $3.65''\<rparr>]"
    by (simp add: world_eval)
  then have "outbox (snd (send_email_alert example_config ?ts ?one False None fresh_world))
               \<noteq> outbox fresh_world"
    by (simp add: fresh)
  from sent [OF this] have c: "0 < sum_list (map (\<lambda>(s, items). length items) ?one)"
    by (rule conjunct1)
  from a b run c show ?thesis by (intro conjI)
qed

end
